theory Spec2Isabelle
  imports Main "HOL-Library.Word"
begin

unbundle bit_operations_syntax

section \<open>The nRF24L01 driver: data model\<close>

text \<open>
  The repository holds two variants of the same driver, both in a file called
  \<^verbatim>\<open>pdlib_nrf24l01.c\<close>:
  \<^item> \<^verbatim>\<open>src/arm/stellaris_lm4f120h5qr\<close>, whose functions carry the suffix \<open>_arm\<close> here;
  \<^item> \<^verbatim>\<open>src/example/stellaris_lm4f120h5qr/pdlib_nrf24l01_test\<close>, suffix \<open>_ex\<close>.
  The functions that drive the pins, whose text is the same in both files and which call
  nothing of the driver, are embedded once, without a suffix. The C names of static
  functions start with an underscore, which is dropped.

  \<^verbatim>\<open>unsigned char\<close> is an 8-bit word, \<^verbatim>\<open>unsigned long\<close> a 32-bit word, \<^verbatim>\<open>int\<close> results are
  \<open>int\<close> (no computation of the driver leaves the range of a 32-bit int: the largest
  one is an 8-bit value shifted left by 4). A buffer length (\<^verbatim>\<open>unsigned int\<close>) is a \<open>nat\<close>;
  the sum \<^verbatim>\<open>uiLength + 1\<close> is taken not to wrap, a buffer of \<open>2^32 - 1\<close> bytes being
  impossible on the 32-bit target.

  A pointer to bytes is a \<open>u8 list option\<close>: \<open>None\<close> is \<^verbatim>\<open>NULL\<close>, \<open>Some d\<close> points to
  the object \<open>d\<close>. C leaves a read past the end of \<open>d\<close> undefined; the results below
  that read \<open>n\<close> bytes of a buffer assume that the buffer has them.
\<close>

type_synonym u8 = "8 word"
type_synonym u32 = "32 word"

text \<open>
  The header \<^verbatim>\<open>nRF24L01.h\<close> is not among the sources. Its macros are taken as a
  parameter \<open>h\<close> of every function that uses one, so that each result holds for
  whatever values the header gives them.
\<close>

record nRF24L01_h =
  RF24_R_REGISTER :: u8
  RF24_W_REGISTER :: u8
  RF24_NOP :: u8
  RF24_FLUSH_TX :: u8
  RF24_FLUSH_RX :: u8
  RF24_W_TX_PAYLOAD :: u8
  RF24_CONFIG :: u8
  RF24_RF_CH :: u8
  RF24_RF_SETUP :: u8
  RF24_STATUS :: u8
  RF24_FIFO_STATUS :: u8
  RF24_RX_ADDR_P0 :: u8
  RF24_TX_ADDR :: u8
  RF24_RX_PW_P0 :: u8
  RF24_RX_EMPTY :: u8
  RF24_TX_FULL :: u8
  RF24_MAX_RT :: u8
  RF24_TX_DS :: u8

text \<open>
  Modelled from the spec: the values of \<^verbatim>\<open>nRF24L01.h\<close>, which is missing. The spec (section 6)
  calls them the chip vendor's fixed opcode set and register map; these are the vendor's
  values, with the bits of STATUS and FIFO_STATUS as masks, which is how the driver uses
  them. They serve only to evaluate the model at concrete inputs.
\<close>

definition vendor_h :: nRF24L01_h where
  "vendor_h = \<lparr> RF24_R_REGISTER = 0x00, RF24_W_REGISTER = 0x20, RF24_NOP = 0xFF,
      RF24_FLUSH_TX = 0xE1, RF24_FLUSH_RX = 0xE2, RF24_W_TX_PAYLOAD = 0xA0,
      RF24_CONFIG = 0x00, RF24_RF_CH = 0x05, RF24_RF_SETUP = 0x06, RF24_STATUS = 0x07,
      RF24_FIFO_STATUS = 0x17, RF24_RX_ADDR_P0 = 0x0A, RF24_TX_ADDR = 0x10,
      RF24_RX_PW_P0 = 0x11, RF24_RX_EMPTY = 0x01, RF24_TX_FULL = 0x20,
      RF24_MAX_RT = 0x10, RF24_TX_DS = 0x20 \<rparr>"

text \<open>
  What the driver does to the outside is a call of the GPIO driver or of the SPI
  transport. Each call is recorded, in order, as an event.
\<close>

datatype event =
    EvGPIOPinWrite u32 u32 u8
  | EvTransferByte u8
  | EvSendData "u8 list"
  | EvReceiveDataBlocking

text \<open>
  The state: the static variables of the driver, and the environment it runs in. The
  environment is the record of calls made so far (\<open>trace\<close>), the bytes the transport
  returns (\<open>rx_script\<close>, of which \<open>rx_pos\<close> have been handed out), whether \<^verbatim>\<open>malloc\<close>
  grants a request of a given size (\<open>malloc_ok\<close>) and the indeterminate contents of a
  fresh block (\<open>heap_junk\<close>).
\<close>

record world =
  g_ulCEPin :: u32
  g_ulCEBase :: u32
  g_ulCSNPin :: u32
  g_ulCSNBase :: u32
  g_ucStatus :: u8
  trace :: "event list"
  rx_script :: "nat \<Rightarrow> u8"
  rx_pos :: nat
  malloc_ok :: "nat \<Rightarrow> bool"
  heap_junk :: "nat \<Rightarrow> u8"

section \<open>The collaborators\<close>

text \<open>
  Modelled from the spec: \<^verbatim>\<open>ROM_GPIOPinWrite\<close> and the transport \<^verbatim>\<open>pdlib_spi\<close>
  (\<^verbatim>\<open>pdlibSPI_TransferByte\<close>, \<^verbatim>\<open>pdlibSPI_SendData\<close>, \<^verbatim>\<open>pdlibSPI_ReceiveDataBlocking\<close>) are
  missing. The spec (sections 6 and 8) describes them as external collaborators: a
  full-duplex exchange of one byte, the sending of a buffer, a blocking receive of one
  byte, to be replaced by a fake that records the calls and scripts the bytes returned.
  The status that \<^verbatim>\<open>pdlibSPI_SendData\<close> returns is dropped by every caller modelled here.
\<close>

definition ROM_GPIOPinWrite :: "u32 \<Rightarrow> u32 \<Rightarrow> u8 \<Rightarrow> world \<Rightarrow> world" where
  "ROM_GPIOPinWrite ulPort ucPins ucVal s =
     s\<lparr>trace := trace s @ [EvGPIOPinWrite ulPort ucPins ucVal]\<rparr>"

definition pdlibSPI_TransferByte :: "u8 \<Rightarrow> world \<Rightarrow> u8 \<times> world" where
  "pdlibSPI_TransferByte ucData s =
     (rx_script s (rx_pos s),
      s\<lparr>trace := trace s @ [EvTransferByte ucData], rx_pos := Suc (rx_pos s)\<rparr>)"

definition pdlibSPI_SendData :: "u8 list \<Rightarrow> nat \<Rightarrow> world \<Rightarrow> world" where
  "pdlibSPI_SendData pucData uiLength s =
     s\<lparr>trace := trace s @ [EvSendData (take uiLength pucData)]\<rparr>"

definition pdlibSPI_ReceiveDataBlocking :: "world \<Rightarrow> u8 \<times> world" where
  "pdlibSPI_ReceiveDataBlocking s =
     (rx_script s (rx_pos s),
      s\<lparr>trace := trace s @ [EvReceiveDataBlocking], rx_pos := Suc (rx_pos s)\<rparr>)"

text \<open>
  \<^verbatim>\<open>malloc\<close> returns \<^verbatim>\<open>NULL\<close> (\<open>None\<close>) or a block of the size asked for, whose contents
  are indeterminate. \<^verbatim>\<open>memcpy (&dst[off], src, n)\<close> overwrites \<open>n\<close> bytes of \<open>dst\<close> from
  offset \<open>off\<close> on.
\<close>

definition malloc :: "nat \<Rightarrow> world \<Rightarrow> u8 list option" where
  "malloc n s = (if malloc_ok s n then Some (map (heap_junk s) [0..<n]) else None)"

definition memcpy :: "u8 list \<Rightarrow> nat \<Rightarrow> u8 list \<Rightarrow> nat \<Rightarrow> u8 list" where
  "memcpy dst off src n = take off dst @ take n src @ drop (off + n) dst"

section \<open>Pin control\<close>

definition NRF24L01_CELow :: "world \<Rightarrow> world" where
  "NRF24L01_CELow s = ROM_GPIOPinWrite (g_ulCEBase s) (g_ulCEPin s) 0x00 s"

definition NRF24L01_CEHigh :: "world \<Rightarrow> world" where
  "NRF24L01_CEHigh s = ROM_GPIOPinWrite (g_ulCEBase s) (g_ulCEPin s) 0xFF s"

definition NRF24L01_CSNLow :: "world \<Rightarrow> world" where
  "NRF24L01_CSNLow s = ROM_GPIOPinWrite (g_ulCSNBase s) (g_ulCSNPin s) 0x00 s"

definition NRF24L01_CSNHigh :: "world \<Rightarrow> world" where
  "NRF24L01_CSNHigh s = ROM_GPIOPinWrite (g_ulCSNBase s) (g_ulCSNPin s) 0xFF s"

section \<open>Register access, variant \<open>arm\<close>\<close>

definition NRF24L01_RegisterWrite_8_arm :: "nRF24L01_h \<Rightarrow> u8 \<Rightarrow> u8 \<Rightarrow> world \<Rightarrow> world" where
  "NRF24L01_RegisterWrite_8_arm h ucRegister ucValue s =
     (let ucData = [RF24_W_REGISTER h OR ucRegister, ucValue];
          s1 = NRF24L01_CSNLow s;
          s2 = pdlibSPI_SendData ucData 2 s1;
          (st, s3) = pdlibSPI_ReceiveDataBlocking s2;
          s4 = s3\<lparr>g_ucStatus := st\<rparr>
      in NRF24L01_CSNHigh s4)"

definition NRF24L01_RegisterWrite_Multi_arm ::
    "nRF24L01_h \<Rightarrow> u8 \<Rightarrow> u8 list option \<Rightarrow> nat \<Rightarrow> world \<Rightarrow> world" where
  "NRF24L01_RegisterWrite_Multi_arm h ucRegister pucData uiLength s =
     (case pucData of
        None \<Rightarrow> s
      | Some d \<Rightarrow>
          (case malloc (uiLength + 1) s of
             None \<Rightarrow> s
           | Some pucBuffer0 \<Rightarrow>
               (let pucBuffer1 = pucBuffer0[0 := RF24_W_REGISTER h OR ucRegister];
                    pucBuffer = memcpy pucBuffer1 1 d uiLength;
                    s1 = NRF24L01_CSNLow s;
                    s2 = pdlibSPI_SendData pucBuffer (uiLength + 1) s1;
                    (st, s3) = pdlibSPI_ReceiveDataBlocking s2;
                    s4 = s3\<lparr>g_ucStatus := st\<rparr>
                in NRF24L01_CSNHigh s4)))"

definition NRF24L01_SendCommand_arm ::
    "u8 \<Rightarrow> u8 list option \<Rightarrow> nat \<Rightarrow> world \<Rightarrow> world" where
  "NRF24L01_SendCommand_arm ucCommand pucData uiLength s =
     (case malloc (uiLength + 1) s of
        None \<Rightarrow> s
      | Some pucBuffer0 \<Rightarrow>
          (let pucBuffer1 = pucBuffer0[0 := ucCommand];
               pucBuffer = (case pucData of
                              None \<Rightarrow> pucBuffer1
                            | Some d \<Rightarrow> memcpy pucBuffer1 1 d uiLength);
               s1 = NRF24L01_CSNLow s;
               s2 = pdlibSPI_SendData pucBuffer (uiLength + 1) s1;
               (st, s3) = pdlibSPI_ReceiveDataBlocking s2;
               s4 = s3\<lparr>g_ucStatus := st\<rparr>
           in NRF24L01_CSNHigh s4))"

definition NRF24L01_RegisterRead_8_arm :: "nRF24L01_h \<Rightarrow> u8 \<Rightarrow> world \<Rightarrow> u8 \<times> world" where
  "NRF24L01_RegisterRead_8_arm h ucRegister s =
     (let ucData0 = RF24_R_REGISTER h OR ucRegister;
          s1 = NRF24L01_CSNLow s;
          s2 = pdlibSPI_SendData [ucData0] 1 s1;
          (st, s3) = pdlibSPI_ReceiveDataBlocking s2;
          s4 = s3\<lparr>g_ucStatus := st\<rparr>;
          ucData1 = RF24_NOP h;
          s5 = pdlibSPI_SendData [ucData1] 1 s4;
          (ucData, s6) = pdlibSPI_ReceiveDataBlocking s5;
          s7 = NRF24L01_CSNHigh s6
      in (ucData, s7))"

section \<open>Register access, variant \<open>ex\<close>\<close>

definition NRF24L01_RegisterWrite_8_ex :: "nRF24L01_h \<Rightarrow> u8 \<Rightarrow> u8 \<Rightarrow> world \<Rightarrow> world" where
  "NRF24L01_RegisterWrite_8_ex h ucRegister ucValue s =
     (let ucData = [RF24_W_REGISTER h OR ucRegister, ucValue];
          s1 = NRF24L01_CSNLow s;
          (st, s2) = pdlibSPI_TransferByte (ucData ! 0) s1;
          s3 = s2\<lparr>g_ucStatus := st\<rparr>;
          (_, s4) = pdlibSPI_TransferByte (ucData ! 1) s3
      in NRF24L01_CSNHigh s4)"

definition NRF24L01_RegisterWrite_Multi_ex ::
    "nRF24L01_h \<Rightarrow> u8 \<Rightarrow> u8 list option \<Rightarrow> nat \<Rightarrow> world \<Rightarrow> world" where
  "NRF24L01_RegisterWrite_Multi_ex h ucRegister pucData uiLength s =
     (case pucData of
        None \<Rightarrow> s
      | Some d \<Rightarrow>
          (case malloc uiLength s of
             None \<Rightarrow> s
           | Some pucBuffer0 \<Rightarrow>
               (let pucBuffer = memcpy pucBuffer0 0 d uiLength;
                    s1 = NRF24L01_CSNLow s;
                    (st, s2) = pdlibSPI_TransferByte (RF24_W_REGISTER h OR ucRegister) s1;
                    s3 = s2\<lparr>g_ucStatus := st\<rparr>;
                    s4 = pdlibSPI_SendData pucBuffer uiLength s3
                in NRF24L01_CSNHigh s4)))"

text \<open>In this variant the line that stores the status is commented out in the source.\<close>

definition NRF24L01_SendCommand_ex ::
    "u8 \<Rightarrow> u8 list option \<Rightarrow> nat \<Rightarrow> world \<Rightarrow> world" where
  "NRF24L01_SendCommand_ex ucCommand pucData uiLength s =
     (case malloc (uiLength + 1) s of
        None \<Rightarrow> s
      | Some pucBuffer0 \<Rightarrow>
          (let pucBuffer1 = pucBuffer0[0 := ucCommand];
               pucBuffer = (case pucData of
                              None \<Rightarrow> pucBuffer1
                            | Some d \<Rightarrow> memcpy pucBuffer1 1 d uiLength);
               s1 = NRF24L01_CSNLow s;
               s2 = pdlibSPI_SendData pucBuffer (uiLength + 1) s1
           in NRF24L01_CSNHigh s2))"

definition NRF24L01_RegisterRead_8_ex :: "nRF24L01_h \<Rightarrow> u8 \<Rightarrow> world \<Rightarrow> u8 \<times> world" where
  "NRF24L01_RegisterRead_8_ex h ucRegister s =
     (let s1 = NRF24L01_CSNLow s;
          (st, s2) = pdlibSPI_TransferByte (RF24_R_REGISTER h OR ucRegister) s1;
          s3 = s2\<lparr>g_ucStatus := st\<rparr>;
          (ucData, s4) = pdlibSPI_TransferByte (RF24_NOP h) s3;
          s5 = NRF24L01_CSNHigh s4
      in (ucData, s5))"

section \<open>Reading a trace\<close>

text \<open>
  \<open>frames b p cur evs\<close> cuts a list of events into SPI transactions. A transaction
  starts when the pin \<open>p\<close> of port \<open>b\<close> (CSN) is written low (the value 0) and ends when it
  is written high (any other value; the driver writes \<open>0xFF\<close>); its content is the bytes
  handed to the transport in between, in order. \<open>cur\<close>
  is the content of the transaction that is open, if one is. The result is \<open>None\<close> when
  the events are no sequence of complete transactions: CSN written low twice, or high
  while high, a byte sent outside a transaction, a transaction left open. Writes to other
  pins and the receive calls, which send nothing, are passed over.
\<close>

fun frames :: "u32 \<Rightarrow> u32 \<Rightarrow> u8 list option \<Rightarrow> event list \<Rightarrow> u8 list list option" where
  "frames b p None [] = Some []"
| "frames b p (Some cur) [] = None"
| "frames b p st (EvGPIOPinWrite b' p' v # es) =
     (if b' = b \<and> p' = p then
        (if v = 0 then
           (case st of None \<Rightarrow> frames b p (Some []) es | Some cur \<Rightarrow> None)
         else
           (case st of
              None \<Rightarrow> None
            | Some cur \<Rightarrow> map_option ((#) cur) (frames b p None es)))
      else frames b p st es)"
| "frames b p st (EvTransferByte x # es) =
     (case st of None \<Rightarrow> None | Some cur \<Rightarrow> frames b p (Some (cur @ [x])) es)"
| "frames b p st (EvSendData xs # es) =
     (case st of None \<Rightarrow> None | Some cur \<Rightarrow> frames b p (Some (cur @ xs)) es)"
| "frames b p st (EvReceiveDataBlocking # es) = frames b p st es"

text \<open>The transactions that an operation added: those of the events from \<open>s\<close> to \<open>s'\<close>.\<close>

definition transactions :: "world \<Rightarrow> world \<Rightarrow> u8 list list option" where
  "transactions s s' =
     (if take (length (trace s)) (trace s') = trace s
      then frames (g_ulCSNBase s) (g_ulCSNPin s) None (drop (length (trace s)) (trace s'))
      else None)"

section \<open>Device control, variant \<open>arm\<close>\<close>

text \<open>
  C computes \<^verbatim>\<open>ucCurrentVal |= (x << k)\<close> on \<^verbatim>\<open>int\<close> and cuts the result to 8 bits when it
  assigns it: \<open>uint\<close> widens, \<open>word_of_int\<close> cuts. A sum of a register number and a pipe
  number is cut in the same way when it is passed as \<^verbatim>\<open>unsigned char\<close>: on \<open>u8\<close>, \<open>+\<close> wraps.
\<close>

definition NRF24L01_GetStatus_arm :: "nRF24L01_h \<Rightarrow> world \<Rightarrow> u8 \<times> world" where
  "NRF24L01_GetStatus_arm h s =
     (let (_, s1) = NRF24L01_RegisterRead_8_arm h (RF24_NOP h) s in (g_ucStatus s1, s1))"

definition NRF24L01_SetAirDataRate_arm :: "nRF24L01_h \<Rightarrow> u8 \<Rightarrow> world \<Rightarrow> world" where
  "NRF24L01_SetAirDataRate_arm h ucDataRate s =
     (let (ucCurrentVal0, s1) = NRF24L01_RegisterRead_8_arm h (RF24_RF_SETUP h) s;
          ucCurrentVal = word_of_int (uint ucCurrentVal0 OR push_bit 3 (uint ucDataRate))
      in NRF24L01_RegisterWrite_8_arm h (RF24_RF_SETUP h) ucCurrentVal s1)"

definition NRF24L01_SetRFChannel_arm :: "nRF24L01_h \<Rightarrow> u8 \<Rightarrow> world \<Rightarrow> world" where
  "NRF24L01_SetRFChannel_arm h ucRFChannel s =
     NRF24L01_RegisterWrite_8_arm h (RF24_RF_CH h) ucRFChannel s"

definition NRF24L01_SetPAGain_arm :: "nRF24L01_h \<Rightarrow> u8 \<Rightarrow> world \<Rightarrow> world" where
  "NRF24L01_SetPAGain_arm h ucPAGain s =
     (let (ucCurrentVal0, s1) = NRF24L01_RegisterRead_8_arm h (RF24_RF_SETUP h) s;
          ucCurrentVal = word_of_int (uint ucCurrentVal0 OR push_bit 1 (uint ucPAGain))
      in NRF24L01_RegisterWrite_8_arm h (RF24_RF_SETUP h) ucCurrentVal s1)"

definition NRF24L01_SetLNAGain_arm :: "nRF24L01_h \<Rightarrow> u8 \<Rightarrow> world \<Rightarrow> world" where
  "NRF24L01_SetLNAGain_arm h ucLNAGain s =
     (let (ucCurrentVal0, s1) = NRF24L01_RegisterRead_8_arm h (RF24_RF_SETUP h) s;
          ucCurrentVal = word_of_int (uint ucCurrentVal0 OR push_bit 0 (uint ucLNAGain))
      in NRF24L01_RegisterWrite_8_arm h (RF24_RF_SETUP h) ucCurrentVal s1)"

definition NRF24L01_FlushTX_arm :: "nRF24L01_h \<Rightarrow> world \<Rightarrow> world" where
  "NRF24L01_FlushTX_arm h s = NRF24L01_SendCommand_arm (RF24_FLUSH_TX h) None 0 s"

definition NRF24L01_FlushRX_arm :: "nRF24L01_h \<Rightarrow> world \<Rightarrow> world" where
  "NRF24L01_FlushRX_arm h s = NRF24L01_SendCommand_arm (RF24_FLUSH_RX h) None 0 s"

definition NRF24L01_GetRxDataAmount_arm :: "nRF24L01_h \<Rightarrow> u8 \<Rightarrow> world \<Rightarrow> u8 \<times> world" where
  "NRF24L01_GetRxDataAmount_arm h ucDataPipe s =
     (if ucDataPipe < 6 then
        (let (ucTemp, s1) = NRF24L01_RegisterRead_8_arm h (RF24_RX_PW_P0 h + ucDataPipe) s
         in (ucTemp AND 0x3F, s1))
      else (0, s))"

definition NRF24L01_SetTXAddress_arm :: "nRF24L01_h \<Rightarrow> u8 list option \<Rightarrow> world \<Rightarrow> world" where
  "NRF24L01_SetTXAddress_arm h pucAddress s =
     NRF24L01_RegisterWrite_Multi_arm h (RF24_TX_ADDR h) pucAddress 5 s"

definition NRF24L01_SetRxAddress_arm ::
    "nRF24L01_h \<Rightarrow> u8 \<Rightarrow> u8 list option \<Rightarrow> world \<Rightarrow> world" where
  "NRF24L01_SetRxAddress_arm h ucDataPipe pucAddress s =
     (case pucAddress of
        None \<Rightarrow> s
      | Some a \<Rightarrow>
          (if ucDataPipe = 0 \<or> ucDataPipe = 1 then
             NRF24L01_RegisterWrite_Multi_arm h (RF24_RX_ADDR_P0 h + ucDataPipe) pucAddress 5 s
           else if ucDataPipe = 2 \<or> ucDataPipe = 3 \<or> ucDataPipe = 4 \<or> ucDataPipe = 5 then
             NRF24L01_RegisterWrite_8_arm h (RF24_RX_ADDR_P0 h + ucDataPipe) (a ! 0) s
           else s))"

definition NRF24L01_SetTxPayload_arm :: "nRF24L01_h \<Rightarrow> u8 list option \<Rightarrow> nat \<Rightarrow> world \<Rightarrow> world" where
  "NRF24L01_SetTxPayload_arm h pucData uiLength s =
     NRF24L01_SendCommand_arm (RF24_W_TX_PAYLOAD h) pucData uiLength s"

section \<open>Device control, variant \<open>ex\<close>\<close>

text \<open>C's \<^verbatim>\<open>/\<close> on \<^verbatim>\<open>int\<close> rounds towards zero.\<close>

definition c_div :: "int \<Rightarrow> int \<Rightarrow> int" where
  "c_div a b = (if (a < 0) = (b < 0) then \<bar>a\<bar> div \<bar>b\<bar> else - (\<bar>a\<bar> div \<bar>b\<bar>))"

definition NRF24L01_GetStatus_ex :: "nRF24L01_h \<Rightarrow> world \<Rightarrow> u8 \<times> world" where
  "NRF24L01_GetStatus_ex h s =
     (let (_, s1) = NRF24L01_RegisterRead_8_ex h (RF24_NOP h) s in (g_ucStatus s1, s1))"

definition NRF24L01_SetAirDataRate_ex :: "nRF24L01_h \<Rightarrow> u8 \<Rightarrow> world \<Rightarrow> world" where
  "NRF24L01_SetAirDataRate_ex h ucDataRate0 s =
     (let (ucCurrentVal0, s1) = NRF24L01_RegisterRead_8_ex h (RF24_RF_SETUP h) s;
          ucDataRate = ucDataRate0 - 1;
          ucCurrentVal = word_of_int (uint ucCurrentVal0 OR push_bit 3 (uint ucDataRate))
      in NRF24L01_RegisterWrite_8_ex h (RF24_RF_SETUP h) ucCurrentVal s1)"

definition NRF24L01_SetRFChannel_ex :: "nRF24L01_h \<Rightarrow> u8 \<Rightarrow> world \<Rightarrow> world" where
  "NRF24L01_SetRFChannel_ex h ucRFChannel s =
     NRF24L01_RegisterWrite_8_ex h (RF24_RF_CH h) ucRFChannel s"

text \<open>
  The source combines the gain and the mask \<^verbatim>\<open>0x03\<close> with \<^verbatim>\<open>&&\<close>, the logical
  conjunction, whose value is 1 when both operands are nonzero and 0 otherwise.
\<close>

definition NRF24L01_SetPAGain_ex :: "nRF24L01_h \<Rightarrow> int \<Rightarrow> world \<Rightarrow> world" where
  "NRF24L01_SetPAGain_ex h iPAGain0 s =
     (let (ucCurrentVal0, s1) = NRF24L01_RegisterRead_8_ex h (RF24_RF_SETUP h) s;
          iPAGain1 = (if iPAGain0 < - 18 then - 18 else if iPAGain0 > 0 then 0 else iPAGain0);
          iPAGain = 3 - c_div (- 1 * iPAGain1) 6;
          ucCurrentVal = word_of_int (uint ucCurrentVal0 OR
              push_bit 1 (if iPAGain \<noteq> 0 \<and> (0x03 :: int) \<noteq> 0 then 1 else 0))
      in NRF24L01_RegisterWrite_8_ex h (RF24_RF_SETUP h) ucCurrentVal s1)"

definition NRF24L01_SetLNAGain_ex :: "nRF24L01_h \<Rightarrow> u8 \<Rightarrow> world \<Rightarrow> world" where
  "NRF24L01_SetLNAGain_ex h ucLNAGain s =
     (let (ucCurrentVal0, s1) = NRF24L01_RegisterRead_8_ex h (RF24_RF_SETUP h) s;
          ucCurrentVal = word_of_int (uint ucCurrentVal0 OR push_bit 0 (uint ucLNAGain))
      in NRF24L01_RegisterWrite_8_ex h (RF24_RF_SETUP h) ucCurrentVal s1)"

definition NRF24L01_FlushTX_ex :: "nRF24L01_h \<Rightarrow> world \<Rightarrow> world" where
  "NRF24L01_FlushTX_ex h s = NRF24L01_SendCommand_ex (RF24_FLUSH_TX h) None 0 s"

definition NRF24L01_FlushRX_ex :: "nRF24L01_h \<Rightarrow> world \<Rightarrow> world" where
  "NRF24L01_FlushRX_ex h s = NRF24L01_SendCommand_ex (RF24_FLUSH_RX h) None 0 s"

definition NRF24L01_IsTxFifoFull_ex :: "nRF24L01_h \<Rightarrow> world \<Rightarrow> int \<times> world" where
  "NRF24L01_IsTxFifoFull_ex h s =
     (let (ucTxFifo, s1) = NRF24L01_RegisterRead_8_ex h (RF24_FIFO_STATUS h) s
      in (if uint ucTxFifo AND uint (RF24_TX_FULL h) \<noteq> 0 then 0 else 1, s1))"

definition NRF24L01_GetRxDataAmount_ex :: "nRF24L01_h \<Rightarrow> u8 \<Rightarrow> world \<Rightarrow> u8 \<times> world" where
  "NRF24L01_GetRxDataAmount_ex h ucDataPipe s =
     (if ucDataPipe < 6 then
        (let (ucTemp, s1) = NRF24L01_RegisterRead_8_ex h (RF24_RX_PW_P0 h + ucDataPipe) s
         in (ucTemp AND 0x3F, s1))
      else (0, s))"

definition NRF24L01_SetTXAddress_ex :: "nRF24L01_h \<Rightarrow> u8 list option \<Rightarrow> world \<Rightarrow> world" where
  "NRF24L01_SetTXAddress_ex h pucAddress s =
     NRF24L01_RegisterWrite_Multi_ex h (RF24_TX_ADDR h) pucAddress 5 s"

text \<open>
  The loop of \<^verbatim>\<open>NRF24L01_WaitForTxComplete\<close>: it reads the status again for as long as
  neither bit is set. It has no bound, so its result is an option: \<open>None\<close> when it
  never ends.
\<close>

partial_function (option) NRF24L01_WaitForTxComplete_ex_loop ::
    "nRF24L01_h \<Rightarrow> world \<Rightarrow> world option" where
  "NRF24L01_WaitForTxComplete_ex_loop h s =
     (if uint (g_ucStatus s) AND (uint (RF24_MAX_RT h) OR uint (RF24_TX_DS h)) = 0
      then NRF24L01_WaitForTxComplete_ex_loop h (snd (NRF24L01_GetStatus_ex h s))
      else Some s)"

definition NRF24L01_WaitForTxComplete_ex :: "nRF24L01_h \<Rightarrow> u8 \<Rightarrow> world \<Rightarrow> (int \<times> world) option" where
  "NRF24L01_WaitForTxComplete_ex h ucWaitMode s =
     (let (_, s1) = NRF24L01_GetStatus_ex h s in
      if ucWaitMode = 0 then
        Some (push_bit 4 (uint (g_ucStatus s1) AND (uint (RF24_MAX_RT h) OR uint (RF24_TX_DS h))), s1)
      else
        (case NRF24L01_WaitForTxComplete_ex_loop h s1 of
           None \<Rightarrow> None
         | Some s2 \<Rightarrow>
             Some (push_bit 4 (uint (g_ucStatus s2) AND
                     (uint (RF24_MAX_RT h) OR uint (RF24_TX_DS h))), s2)))"

definition NRF24L01_SetRxAddress_ex ::
    "nRF24L01_h \<Rightarrow> u8 \<Rightarrow> u8 list option \<Rightarrow> world \<Rightarrow> world" where
  "NRF24L01_SetRxAddress_ex h ucDataPipe pucAddress s =
     (case pucAddress of
        None \<Rightarrow> s
      | Some a \<Rightarrow>
          (if ucDataPipe = 0 \<or> ucDataPipe = 1 then
             NRF24L01_RegisterWrite_Multi_ex h (RF24_RX_ADDR_P0 h + ucDataPipe) pucAddress 5 s
           else if ucDataPipe = 2 \<or> ucDataPipe = 3 \<or> ucDataPipe = 4 \<or> ucDataPipe = 5 then
             NRF24L01_RegisterWrite_8_ex h (RF24_RX_ADDR_P0 h + ucDataPipe) (a ! 0) s
           else s))"

definition NRF24L01_SetTxPayload_ex ::
    "nRF24L01_h \<Rightarrow> u8 list option \<Rightarrow> nat \<Rightarrow> world \<Rightarrow> int \<times> world" where
  "NRF24L01_SetTxPayload_ex h pucData uiLength s =
     (let (full, s1) = NRF24L01_IsTxFifoFull_ex h s in
      if full \<noteq> 0 then (- 1, s1)
      else (0, NRF24L01_SendCommand_ex (RF24_W_TX_PAYLOAD h) pucData uiLength s1))"

section \<open>Shorthand for the statements\<close>

text \<open>
  The completion bits of a status byte, as \<^verbatim>\<open>NRF24L01_WaitForTxComplete\<close> computes them:
  \<^verbatim>\<open>status & (RF24_MAX_RT | RF24_TX_DS)\<close>, on \<^verbatim>\<open>int\<close>.
\<close>

definition completion_bits :: "nRF24L01_h \<Rightarrow> u8 \<Rightarrow> int" where
  "completion_bits h st = uint st AND (uint (RF24_MAX_RT h) OR uint (RF24_TX_DS h))"

section \<open>A test bench\<close>

text \<open>
  A state to evaluate the driver at: CE on pin 2 and CSN on pin 3 of one port, nothing
  recorded yet, a transport that returns the bytes of \<open>script\<close>, an allocator that grants
  every request and hands out blocks full of \<open>0xEE\<close>. The script \<open>scripted bs\<close> returns the
  bytes of the list \<open>bs\<close>, then \<open>0x0E\<close> (the status of an idle chip) for ever.
\<close>

definition scripted :: "u8 list \<Rightarrow> nat \<Rightarrow> u8" where
  "scripted bs k = (if k < length bs then bs ! k else 0x0E)"

definition bench :: "(nat \<Rightarrow> u8) \<Rightarrow> world" where
  "bench script = \<lparr> g_ulCEPin = 0x04, g_ulCEBase = 0x40024000, g_ulCSNPin = 0x08,
      g_ulCSNBase = 0x40024000, g_ucStatus = 0x00, trace = [], rx_script = script,
      rx_pos = 0, malloc_ok = (\<lambda>n. True), heap_junk = (\<lambda>i. 0xEE) \<rparr>"

section \<open>Facts about the collaborators and the register access\<close>

lemmas env_defs = ROM_GPIOPinWrite_def pdlibSPI_TransferByte_def pdlibSPI_SendData_def
  pdlibSPI_ReceiveDataBlocking_def NRF24L01_CELow_def NRF24L01_CEHigh_def
  NRF24L01_CSNLow_def NRF24L01_CSNHigh_def

lemma transactions_append:
  "trace s' = trace s @ evs \<Longrightarrow>
   transactions s s' = frames (g_ulCSNBase s) (g_ulCSNPin s) None evs"
  by (simp add: transactions_def)

lemma fresh_block_filled:
  "length d = n \<Longrightarrow> memcpy ((map f [0..<Suc n])[0 := c]) (Suc 0) d n = c # d"
  by (simp add: memcpy_def upt_conv_Cons del: upt_Suc)

lemma trace_RegisterWrite_8_arm:
  "trace (NRF24L01_RegisterWrite_8_arm h r v s) = trace s @
     [EvGPIOPinWrite (g_ulCSNBase s) (g_ulCSNPin s) 0x00,
      EvSendData [RF24_W_REGISTER h OR r, v], EvReceiveDataBlocking,
      EvGPIOPinWrite (g_ulCSNBase s) (g_ulCSNPin s) 0xFF]"
  by (simp add: NRF24L01_RegisterWrite_8_arm_def env_defs Let_def)

lemma trace_RegisterWrite_8_ex:
  "trace (NRF24L01_RegisterWrite_8_ex h r v s) = trace s @
     [EvGPIOPinWrite (g_ulCSNBase s) (g_ulCSNPin s) 0x00,
      EvTransferByte (RF24_W_REGISTER h OR r), EvTransferByte v,
      EvGPIOPinWrite (g_ulCSNBase s) (g_ulCSNPin s) 0xFF]"
  by (simp add: NRF24L01_RegisterWrite_8_ex_def env_defs Let_def)

lemma trace_RegisterWrite_Multi_arm:
  "malloc_ok s (Suc (length d)) \<Longrightarrow>
   trace (NRF24L01_RegisterWrite_Multi_arm h r (Some d) (length d) s) = trace s @
     [EvGPIOPinWrite (g_ulCSNBase s) (g_ulCSNPin s) 0x00,
      EvSendData ((RF24_W_REGISTER h OR r) # d), EvReceiveDataBlocking,
      EvGPIOPinWrite (g_ulCSNBase s) (g_ulCSNPin s) 0xFF]"
  by (simp add: NRF24L01_RegisterWrite_Multi_arm_def malloc_def env_defs Let_def
      fresh_block_filled del: upt_Suc)

lemma trace_RegisterWrite_Multi_ex:
  "malloc_ok s (length d) \<Longrightarrow>
   trace (NRF24L01_RegisterWrite_Multi_ex h r (Some d) (length d) s) = trace s @
     [EvGPIOPinWrite (g_ulCSNBase s) (g_ulCSNPin s) 0x00,
      EvTransferByte (RF24_W_REGISTER h OR r), EvSendData d,
      EvGPIOPinWrite (g_ulCSNBase s) (g_ulCSNPin s) 0xFF]"
  by (simp add: NRF24L01_RegisterWrite_Multi_ex_def malloc_def env_defs Let_def memcpy_def)

lemma transactions_same: "transactions s s = Some []"
  by (simp add: transactions_def)

lemma refused_block_skips:
  "\<not> malloc_ok s (Suc n) \<Longrightarrow> NRF24L01_SendCommand_arm c d n s = s"
  "\<not> malloc_ok s (Suc n) \<Longrightarrow> NRF24L01_SendCommand_ex c d n s = s"
  "\<not> malloc_ok s (Suc n) \<Longrightarrow> NRF24L01_RegisterWrite_Multi_arm h r d n s = s"
  "\<not> malloc_ok s n \<Longrightarrow> NRF24L01_RegisterWrite_Multi_ex h r d n s = s"
  by (simp_all add: NRF24L01_SendCommand_arm_def NRF24L01_SendCommand_ex_def
      NRF24L01_RegisterWrite_Multi_arm_def NRF24L01_RegisterWrite_Multi_ex_def malloc_def
      split: option.splits)

lemma NULL_multi_write_skips:
  "NRF24L01_RegisterWrite_Multi_arm h r None n s = s"
  "NRF24L01_RegisterWrite_Multi_ex h r None n s = s"
  by (simp_all add: NRF24L01_RegisterWrite_Multi_arm_def NRF24L01_RegisterWrite_Multi_ex_def)

lemma malloc_ok_bench: "malloc_ok (bench f) n"
  by (simp add: bench_def)

lemma bench_facts:
  "g_ucStatus (bench f) = 0" "rx_script (bench f) = f" "rx_pos (bench f) = 0" "trace (bench f) = []"
  by (simp_all add: bench_def)

lemma trace_RegisterRead_8_arm:
  "trace (snd (NRF24L01_RegisterRead_8_arm h r s)) = trace s @
     [EvGPIOPinWrite (g_ulCSNBase s) (g_ulCSNPin s) 0x00,
      EvSendData [RF24_R_REGISTER h OR r], EvReceiveDataBlocking,
      EvSendData [RF24_NOP h], EvReceiveDataBlocking,
      EvGPIOPinWrite (g_ulCSNBase s) (g_ulCSNPin s) 0xFF]"
  by (simp add: NRF24L01_RegisterRead_8_arm_def env_defs Let_def split_def)

lemma trace_RegisterRead_8_ex:
  "trace (snd (NRF24L01_RegisterRead_8_ex h r s)) = trace s @
     [EvGPIOPinWrite (g_ulCSNBase s) (g_ulCSNPin s) 0x00,
      EvTransferByte (RF24_R_REGISTER h OR r), EvTransferByte (RF24_NOP h),
      EvGPIOPinWrite (g_ulCSNBase s) (g_ulCSNPin s) 0xFF]"
  by (simp add: NRF24L01_RegisterRead_8_ex_def env_defs Let_def split_def)

lemma result_RegisterRead_8_arm:
  "fst (NRF24L01_RegisterRead_8_arm h r s) = rx_script s (Suc (rx_pos s))"
  "g_ucStatus (snd (NRF24L01_RegisterRead_8_arm h r s)) = rx_script s (rx_pos s)"
  "rx_pos (snd (NRF24L01_RegisterRead_8_arm h r s)) = rx_pos s + 2"
  "rx_script (snd (NRF24L01_RegisterRead_8_arm h r s)) = rx_script s"
  "g_ulCSNBase (snd (NRF24L01_RegisterRead_8_arm h r s)) = g_ulCSNBase s"
  "g_ulCSNPin (snd (NRF24L01_RegisterRead_8_arm h r s)) = g_ulCSNPin s"
  "malloc_ok (snd (NRF24L01_RegisterRead_8_arm h r s)) = malloc_ok s"
  "heap_junk (snd (NRF24L01_RegisterRead_8_arm h r s)) = heap_junk s"
  by (simp_all add: NRF24L01_RegisterRead_8_arm_def env_defs Let_def split_def)

lemma result_RegisterRead_8_ex:
  "fst (NRF24L01_RegisterRead_8_ex h r s) = rx_script s (Suc (rx_pos s))"
  "g_ucStatus (snd (NRF24L01_RegisterRead_8_ex h r s)) = rx_script s (rx_pos s)"
  "rx_pos (snd (NRF24L01_RegisterRead_8_ex h r s)) = rx_pos s + 2"
  "rx_script (snd (NRF24L01_RegisterRead_8_ex h r s)) = rx_script s"
  "g_ulCSNBase (snd (NRF24L01_RegisterRead_8_ex h r s)) = g_ulCSNBase s"
  "g_ulCSNPin (snd (NRF24L01_RegisterRead_8_ex h r s)) = g_ulCSNPin s"
  "malloc_ok (snd (NRF24L01_RegisterRead_8_ex h r s)) = malloc_ok s"
  "heap_junk (snd (NRF24L01_RegisterRead_8_ex h r s)) = heap_junk s"
  by (simp_all add: NRF24L01_RegisterRead_8_ex_def env_defs Let_def split_def)

section \<open>Register writes (C1)\<close>

text \<open>
  C1. A write of one register, in either variant, adds exactly one transaction (CSN
  low, then high) of exactly two bytes: \<open>RF24_W_REGISTER OR r\<close>, then the value. A write
  of a buffer of \<open>N\<close> bytes adds exactly one transaction of \<open>1 + N\<close> bytes:
  \<open>RF24_W_REGISTER OR r\<close>, then the bytes of the buffer in order. That is the write that
  takes place: when \<^verbatim>\<open>malloc\<close> refuses the block for the frame, the failure that C8 is
  about, the write is skipped and no transaction is added.
\<close>

theorem register_write_bracket:
  "transactions s (NRF24L01_RegisterWrite_8_arm h r v s) = Some [[RF24_W_REGISTER h OR r, v]] \<and>
   transactions s (NRF24L01_RegisterWrite_8_ex h r v s) = Some [[RF24_W_REGISTER h OR r, v]] \<and>
   transactions s (NRF24L01_RegisterWrite_Multi_arm h r (Some d) (length d) s)
     = (if malloc_ok s (Suc (length d)) then Some [(RF24_W_REGISTER h OR r) # d] else Some []) \<and>
   transactions s (NRF24L01_RegisterWrite_Multi_ex h r (Some d) (length d) s)
     = (if malloc_ok s (length d) then Some [(RF24_W_REGISTER h OR r) # d] else Some [])"
  by (simp add: transactions_append[OF trace_RegisterWrite_8_arm]
      transactions_append[OF trace_RegisterWrite_8_ex]
      transactions_append[OF trace_RegisterWrite_Multi_arm]
      transactions_append[OF trace_RegisterWrite_Multi_ex]
      refused_block_skips transactions_same)

text \<open>
  On the bench: channel \<open>0x4C\<close> written to RF_CH, and the address
  \<open>AA BB CC DD EE\<close> written to RX_ADDR_P0.
\<close>

theorem register_write_bracket_witness:
  "malloc_ok (bench (scripted [])) (Suc (length [0xAA, 0xBB, 0xCC, 0xDD, 0xEE :: u8])) \<and>
   malloc_ok (bench (scripted [])) (length [0xAA, 0xBB, 0xCC, 0xDD, 0xEE :: u8]) \<and>
   transactions (bench (scripted []))
      (NRF24L01_RegisterWrite_8_arm vendor_h 0x05 0x4C (bench (scripted []))) = Some [[0x25, 0x4C]] \<and>
   transactions (bench (scripted []))
      (NRF24L01_RegisterWrite_8_ex vendor_h 0x05 0x4C (bench (scripted []))) = Some [[0x25, 0x4C]] \<and>
   transactions (bench (scripted []))
      (NRF24L01_RegisterWrite_Multi_arm vendor_h 0x0A (Some [0xAA, 0xBB, 0xCC, 0xDD, 0xEE]) 5
         (bench (scripted []))) = Some [[0x2A, 0xAA, 0xBB, 0xCC, 0xDD, 0xEE]] \<and>
   transactions (bench (scripted []))
      (NRF24L01_RegisterWrite_Multi_ex vendor_h 0x0A (Some [0xAA, 0xBB, 0xCC, 0xDD, 0xEE]) 5
         (bench (scripted []))) = Some [[0x2A, 0xAA, 0xBB, 0xCC, 0xDD, 0xEE]]"
  using register_write_bracket [of "bench (scripted [])" vendor_h "0x05" "0x4C"
          "[0xAA, 0xBB, 0xCC, 0xDD, 0xEE]"]
        register_write_bracket [of "bench (scripted [])" vendor_h "0x0A" "0x4C"
          "[0xAA, 0xBB, 0xCC, 0xDD, 0xEE]"]
  by (simp add: malloc_ok_bench vendor_h_def scripted_def eval_nat_numeral)

section \<open>Register reads (C2)\<close>

text \<open>
  C2. A read of one register, in either variant, adds exactly one transaction of exactly
  two bytes: \<open>RF24_R_REGISTER OR r\<close>, then the no-op byte. It takes two bytes from the
  transport: the first becomes the stored status, the second is the value returned.
\<close>

theorem register_read_bracket:
  "transactions s (snd (NRF24L01_RegisterRead_8_arm h r s))
      = Some [[RF24_R_REGISTER h OR r, RF24_NOP h]] \<and>
   fst (NRF24L01_RegisterRead_8_arm h r s) = rx_script s (rx_pos s + 1) \<and>
   g_ucStatus (snd (NRF24L01_RegisterRead_8_arm h r s)) = rx_script s (rx_pos s) \<and>
   rx_pos (snd (NRF24L01_RegisterRead_8_arm h r s)) = rx_pos s + 2 \<and>
   transactions s (snd (NRF24L01_RegisterRead_8_ex h r s))
      = Some [[RF24_R_REGISTER h OR r, RF24_NOP h]] \<and>
   fst (NRF24L01_RegisterRead_8_ex h r s) = rx_script s (rx_pos s + 1) \<and>
   g_ucStatus (snd (NRF24L01_RegisterRead_8_ex h r s)) = rx_script s (rx_pos s) \<and>
   rx_pos (snd (NRF24L01_RegisterRead_8_ex h r s)) = rx_pos s + 2"
  by (simp add: transactions_append[OF trace_RegisterRead_8_arm]
      transactions_append[OF trace_RegisterRead_8_ex]
      result_RegisterRead_8_arm result_RegisterRead_8_ex)

section \<open>The payload width of a pipe (C6)\<close>

lemma GetRxDataAmount_arm_in_range:
  "p < 6 \<Longrightarrow>
   transactions s (snd (NRF24L01_GetRxDataAmount_arm h p s))
     = Some [[RF24_R_REGISTER h OR (RF24_RX_PW_P0 h + p), RF24_NOP h]] \<and>
   fst (NRF24L01_GetRxDataAmount_arm h p s) = rx_script s (rx_pos s + 1) AND 0x3F"
  by (simp add: NRF24L01_GetRxDataAmount_arm_def split_def
      transactions_append[OF trace_RegisterRead_8_arm] result_RegisterRead_8_arm)

lemma GetRxDataAmount_ex_in_range:
  "p < 6 \<Longrightarrow>
   transactions s (snd (NRF24L01_GetRxDataAmount_ex h p s))
     = Some [[RF24_R_REGISTER h OR (RF24_RX_PW_P0 h + p), RF24_NOP h]] \<and>
   fst (NRF24L01_GetRxDataAmount_ex h p s) = rx_script s (rx_pos s + 1) AND 0x3F"
  by (simp add: NRF24L01_GetRxDataAmount_ex_def split_def
      transactions_append[OF trace_RegisterRead_8_ex] result_RegisterRead_8_ex)

text \<open>
  C6. For a pipe number below 6, \<^verbatim>\<open>NRF24L01_GetRxDataAmount\<close> reads the register
  \<open>RF24_RX_PW_P0 + pipe\<close> in one transaction and returns the value read, masked to
  its low 6 bits. For a pipe number of 6 or more it returns 0 and leaves the state as it
  was: no transaction, nothing recorded, no error value.
\<close>

theorem rx_data_amount:
  "(p < 6 \<longrightarrow>
      transactions s (snd (NRF24L01_GetRxDataAmount_arm h p s))
        = Some [[RF24_R_REGISTER h OR (RF24_RX_PW_P0 h + p), RF24_NOP h]] \<and>
      fst (NRF24L01_GetRxDataAmount_arm h p s) = rx_script s (rx_pos s + 1) AND 0x3F \<and>
      transactions s (snd (NRF24L01_GetRxDataAmount_ex h p s))
        = Some [[RF24_R_REGISTER h OR (RF24_RX_PW_P0 h + p), RF24_NOP h]] \<and>
      fst (NRF24L01_GetRxDataAmount_ex h p s) = rx_script s (rx_pos s + 1) AND 0x3F) \<and>
   (6 \<le> p \<longrightarrow>
      NRF24L01_GetRxDataAmount_arm h p s = (0, s) \<and>
      NRF24L01_GetRxDataAmount_ex h p s = (0, s) \<and>
      transactions s (snd (NRF24L01_GetRxDataAmount_arm h p s)) = Some [] \<and>
      transactions s (snd (NRF24L01_GetRxDataAmount_ex h p s)) = Some [])"
proof (cases "p < 6")
  case True
  then show ?thesis
    using GetRxDataAmount_arm_in_range [OF True] GetRxDataAmount_ex_in_range [OF True]
    by (simp add: not_le [symmetric])
next
  case False
  then show ?thesis
    by (simp add: NRF24L01_GetRxDataAmount_arm_def NRF24L01_GetRxDataAmount_ex_def
        transactions_same)
qed

text \<open>On the bench: pipe 2 with the register reading \<open>0xE0\<close>, then pipes 6 and 255.\<close>

theorem rx_data_amount_witness:
  "(2 :: u8) < 6 \<and> (6 :: u8) \<le> 255 \<and> (6 :: u8) \<le> 6 \<and>
   transactions (bench (scripted [0x0E, 0xE0]))
     (snd (NRF24L01_GetRxDataAmount_ex vendor_h 2 (bench (scripted [0x0E, 0xE0]))))
     = Some [[0x13, 0xFF]] \<and>
   fst (NRF24L01_GetRxDataAmount_ex vendor_h 2 (bench (scripted [0x0E, 0xE0]))) = 0x20 \<and>
   fst (NRF24L01_GetRxDataAmount_arm vendor_h 2 (bench (scripted [0x0E, 0xE0]))) = 0x20 \<and>
   NRF24L01_GetRxDataAmount_arm vendor_h 6 (bench (scripted [])) = (0, bench (scripted [])) \<and>
   NRF24L01_GetRxDataAmount_ex vendor_h 255 (bench (scripted [])) = (0, bench (scripted []))"
  using rx_data_amount [of 2 "bench (scripted [0x0E, 0xE0])" vendor_h]
        rx_data_amount [of 6 "bench (scripted [])" vendor_h]
        rx_data_amount [of 255 "bench (scripted [])" vendor_h]
  by (simp add: vendor_h_def scripted_def bench_def)

section \<open>Receive addresses (C7)\<close>

text \<open>
  C7. With a non-null address, \<^verbatim>\<open>NRF24L01_SetRxAddress\<close> does the following. For pipe 0
  or 1 and an address of 5 bytes: one transaction, the write of the 5 bytes to the
  register \<open>RF24_RX_ADDR_P0 + pipe\<close> (a write that is skipped, as C8 says, when \<^verbatim>\<open>malloc\<close>
  refuses the block for the frame). For pipe 2, 3, 4 or 5: one transaction, the write of
  the first byte of the address alone to \<open>RF24_RX_ADDR_P0 + pipe\<close>. For a pipe number of 6 or
  more: nothing, the state is left as it was.
\<close>

theorem rx_address:
  "((p = 0 \<or> p = 1) \<and> length a = 5 \<longrightarrow>
      transactions s (NRF24L01_SetRxAddress_arm h p (Some a) s)
        = (if malloc_ok s 6 then Some [(RF24_W_REGISTER h OR (RF24_RX_ADDR_P0 h + p)) # a]
           else Some []) \<and>
      transactions s (NRF24L01_SetRxAddress_ex h p (Some a) s)
        = (if malloc_ok s 5 then Some [(RF24_W_REGISTER h OR (RF24_RX_ADDR_P0 h + p)) # a]
           else Some [])) \<and>
   ((p = 2 \<or> p = 3 \<or> p = 4 \<or> p = 5) \<and> a \<noteq> [] \<longrightarrow>
      transactions s (NRF24L01_SetRxAddress_arm h p (Some a) s)
        = Some [[RF24_W_REGISTER h OR (RF24_RX_ADDR_P0 h + p), a ! 0]] \<and>
      transactions s (NRF24L01_SetRxAddress_ex h p (Some a) s)
        = Some [[RF24_W_REGISTER h OR (RF24_RX_ADDR_P0 h + p), a ! 0]]) \<and>
   (6 \<le> p \<longrightarrow>
      NRF24L01_SetRxAddress_arm h p (Some a) s = s \<and>
      NRF24L01_SetRxAddress_ex h p (Some a) s = s \<and>
      transactions s (NRF24L01_SetRxAddress_arm h p (Some a) s) = Some [] \<and>
      transactions s (NRF24L01_SetRxAddress_ex h p (Some a) s) = Some [])"
proof -
  have multi_arm: "length a = 5 \<Longrightarrow>
      transactions s (NRF24L01_RegisterWrite_Multi_arm h r (Some a) 5 s)
        = (if malloc_ok s 6 then Some [(RF24_W_REGISTER h OR r) # a] else Some [])" for r
    using transactions_append [OF trace_RegisterWrite_Multi_arm [of s a h r]]
      refused_block_skips(3) [of s 5 h r "Some a"]
    by (simp add: transactions_same)
  have multi_ex: "length a = 5 \<Longrightarrow>
      transactions s (NRF24L01_RegisterWrite_Multi_ex h r (Some a) 5 s)
        = (if malloc_ok s 5 then Some [(RF24_W_REGISTER h OR r) # a] else Some [])" for r
    using transactions_append [OF trace_RegisterWrite_Multi_ex [of s a h r]]
      refused_block_skips(4) [of s 5 h r "Some a"]
    by (simp add: transactions_same)
  have far: "6 \<le> p \<Longrightarrow> p \<noteq> 0 \<and> p \<noteq> 1 \<and> p \<noteq> 2 \<and> p \<noteq> 3 \<and> p \<noteq> 4 \<and> p \<noteq> 5"
    by (auto simp: word_le_nat_alt)
  show ?thesis
    using far
    by (auto simp: NRF24L01_SetRxAddress_arm_def NRF24L01_SetRxAddress_ex_def multi_arm multi_ex
        transactions_same transactions_append[OF trace_RegisterWrite_8_arm]
        transactions_append[OF trace_RegisterWrite_8_ex])
qed

text \<open>On the bench: pipe 0 with \<open>AA BB CC DD EE\<close>, pipe 3 with \<open>11\<close>, pipe 6.\<close>

theorem rx_address_witness:
  "length [0xAA, 0xBB, 0xCC, 0xDD, 0xEE :: u8] = 5 \<and> [0x11 :: u8] \<noteq> [] \<and> (6 :: u8) \<le> 6 \<and>
   malloc_ok (bench (scripted [])) 6 \<and> malloc_ok (bench (scripted [])) 5 \<and>
   transactions (bench (scripted []))
     (NRF24L01_SetRxAddress_arm vendor_h 0 (Some [0xAA, 0xBB, 0xCC, 0xDD, 0xEE]) (bench (scripted [])))
     = Some [[0x2A, 0xAA, 0xBB, 0xCC, 0xDD, 0xEE]] \<and>
   transactions (bench (scripted []))
     (NRF24L01_SetRxAddress_ex vendor_h 0 (Some [0xAA, 0xBB, 0xCC, 0xDD, 0xEE]) (bench (scripted [])))
     = Some [[0x2A, 0xAA, 0xBB, 0xCC, 0xDD, 0xEE]] \<and>
   transactions (bench (scripted []))
     (NRF24L01_SetRxAddress_arm vendor_h 3 (Some [0x11]) (bench (scripted []))) = Some [[0x2D, 0x11]] \<and>
   transactions (bench (scripted []))
     (NRF24L01_SetRxAddress_ex vendor_h 3 (Some [0x11]) (bench (scripted []))) = Some [[0x2D, 0x11]] \<and>
   NRF24L01_SetRxAddress_arm vendor_h 6 (Some [0x11]) (bench (scripted [])) = bench (scripted []) \<and>
   NRF24L01_SetRxAddress_ex vendor_h 6 (Some [0x11]) (bench (scripted [])) = bench (scripted [])"
  using rx_address [of 0 "[0xAA, 0xBB, 0xCC, 0xDD, 0xEE]" "bench (scripted [])" vendor_h]
        rx_address [of 3 "[0x11]" "bench (scripted [])" vendor_h]
        rx_address [of 6 "[0x11]" "bench (scripted [])" vendor_h]
  by (simp add: malloc_ok_bench vendor_h_def scripted_def)

section \<open>Waiting for the end of a transmission (C5)\<close>

lemma GetStatus_ex_facts:
  "g_ucStatus (snd (NRF24L01_GetStatus_ex h s)) = rx_script s (rx_pos s)"
  "rx_pos (snd (NRF24L01_GetStatus_ex h s)) = rx_pos s + 2"
  "rx_script (snd (NRF24L01_GetStatus_ex h s)) = rx_script s"
  "trace (snd (NRF24L01_GetStatus_ex h s)) = trace (snd (NRF24L01_RegisterRead_8_ex h (RF24_NOP h) s))"
  "fst (NRF24L01_GetStatus_ex h s) = rx_script s (rx_pos s)"
  by (simp_all add: NRF24L01_GetStatus_ex_def split_def result_RegisterRead_8_ex)

lemma transactions_GetStatus_ex:
  "transactions s (snd (NRF24L01_GetStatus_ex h s)) = Some [[RF24_R_REGISTER h OR RF24_NOP h, RF24_NOP h]]"
  by (simp add: transactions_append [OF trace_RegisterRead_8_ex [of h "RF24_NOP h" s, folded GetStatus_ex_facts(4)]])

lemma loop_done:
  "completion_bits h (g_ucStatus s) \<noteq> 0 \<Longrightarrow> NRF24L01_WaitForTxComplete_ex_loop h s = Some s"
  by (subst NRF24L01_WaitForTxComplete_ex_loop.simps) (simp add: completion_bits_def)

lemma loop_again:
  "completion_bits h (g_ucStatus s) = 0 \<Longrightarrow>
   NRF24L01_WaitForTxComplete_ex_loop h s
     = NRF24L01_WaitForTxComplete_ex_loop h (snd (NRF24L01_GetStatus_ex h s))"
  by (subst NRF24L01_WaitForTxComplete_ex_loop.simps) (simp add: completion_bits_def)

lemma loop_finishes:
  "\<forall>i<n. completion_bits h (rx_script s (rx_pos s + 2 * i)) = 0 \<Longrightarrow>
   completion_bits h (rx_script s (rx_pos s + 2 * n)) \<noteq> 0 \<Longrightarrow>
   \<exists>s'. NRF24L01_WaitForTxComplete_ex_loop h (snd (NRF24L01_GetStatus_ex h s)) = Some s' \<and>
        g_ucStatus s' = rx_script s (rx_pos s + 2 * n) \<and>
        rx_pos s' = rx_pos s + 2 * (n + 1) \<and> rx_script s' = rx_script s"
proof (induction n arbitrary: s)
  case 0
  then show ?case
    by (simp add: loop_done GetStatus_ex_facts)
next
  case (Suc n)
  let ?s1 = "snd (NRF24L01_GetStatus_ex h s)"
  from Suc.prems(1) have "completion_bits h (rx_script s (rx_pos s + 2 * 0)) = 0"
    by blast
  then have busy0: "completion_bits h (g_ucStatus ?s1) = 0"
    by (simp add: GetStatus_ex_facts)
  have later: "\<forall>i<n. completion_bits h (rx_script ?s1 (rx_pos ?s1 + 2 * i)) = 0"
  proof (intro allI impI)
    fix i assume "i < n"
    then have "Suc i < Suc n" by simp
    with Suc.prems(1) have "completion_bits h (rx_script s (rx_pos s + 2 * Suc i)) = 0"
      by blast
    then show "completion_bits h (rx_script ?s1 (rx_pos ?s1 + 2 * i)) = 0"
      by (simp add: GetStatus_ex_facts add.commute add.left_commute)
  qed
  have hit: "completion_bits h (rx_script ?s1 (rx_pos ?s1 + 2 * n)) \<noteq> 0"
    using Suc.prems(2) by (simp add: GetStatus_ex_facts add.commute add.left_commute)
  from Suc.IH [OF later hit] obtain s' where
    "NRF24L01_WaitForTxComplete_ex_loop h (snd (NRF24L01_GetStatus_ex h ?s1)) = Some s'"
    "g_ucStatus s' = rx_script ?s1 (rx_pos ?s1 + 2 * n)"
    "rx_pos s' = rx_pos ?s1 + 2 * (n + 1)" "rx_script s' = rx_script ?s1"
    by blast
  then show ?case
    by (simp add: loop_again [OF busy0] GetStatus_ex_facts add.commute add.left_commute)
qed

lemma first_hit:
  fixes P :: "nat \<Rightarrow> bool"
  assumes "P n"
  shows "\<exists>k\<le>n. P k \<and> (\<forall>i<k. \<not> P i)"
proof -
  have "P (LEAST k. P k)" using assms by (rule LeastI)
  moreover have "(LEAST k. P k) \<le> n" using assms by (rule Least_le)
  moreover have "\<forall>i<(LEAST k. P k). \<not> P i" using not_less_Least by blast
  ultimately show ?thesis by blast
qed

text \<open>
  C5. Called with wait mode 0, \<^verbatim>\<open>NRF24L01_WaitForTxComplete\<close> returns after a single read
  of the status, without entering the loop; its result is the completion bits of that
  status shifted left by 4, which is 0 exactly when neither bit is set. Called with a
  nonzero wait mode, when the status read at some poll \<open>n\<close> has one of the two bits set,
  it returns: it stops at the first such poll \<open>k\<close> (having read the status \<open>k + 1\<close> times and
  no more), the stored status is the one read at poll \<open>k\<close>, and the result is its completion
  bits shifted left by 4, which is not 0. Each poll takes two bytes from the transport;
  the status is the first of them.
\<close>

theorem wait_for_tx_complete:
  "NRF24L01_WaitForTxComplete_ex h 0 s
     = Some (push_bit 4 (completion_bits h (rx_script s (rx_pos s))),
             snd (NRF24L01_GetStatus_ex h s)) \<and>
   transactions s (snd (NRF24L01_GetStatus_ex h s))
     = Some [[RF24_R_REGISTER h OR RF24_NOP h, RF24_NOP h]] \<and>
   (push_bit 4 (completion_bits h (rx_script s (rx_pos s))) = 0
      \<longleftrightarrow> rx_script s (rx_pos s) AND (RF24_MAX_RT h OR RF24_TX_DS h) = 0) \<and>
   (mode \<noteq> 0 \<and> rx_script s (rx_pos s + 2 * n) AND (RF24_MAX_RT h OR RF24_TX_DS h) \<noteq> 0 \<longrightarrow>
      (\<exists>k ret s'. k \<le> n \<and>
         NRF24L01_WaitForTxComplete_ex h mode s = Some (ret, s') \<and>
         (\<forall>i<k. rx_script s (rx_pos s + 2 * i) AND (RF24_MAX_RT h OR RF24_TX_DS h) = 0) \<and>
         g_ucStatus s' = rx_script s (rx_pos s + 2 * k) \<and>
         rx_pos s' = rx_pos s + 2 * (k + 1) \<and>
         ret = push_bit 4 (completion_bits h (g_ucStatus s')) \<and> ret \<noteq> 0))"
proof -
  have bits: "completion_bits h st = 0 \<longleftrightarrow> st AND (RF24_MAX_RT h OR RF24_TX_DS h) = 0" for st
    by (simp add: completion_bits_def uint_0_iff flip: uint_or uint_and)
  have nb: "NRF24L01_WaitForTxComplete_ex h 0 s
     = Some (push_bit 4 (completion_bits h (rx_script s (rx_pos s))),
             snd (NRF24L01_GetStatus_ex h s))"
    by (simp add: NRF24L01_WaitForTxComplete_ex_def split_def GetStatus_ex_facts completion_bits_def)
  have zero: "push_bit 4 (completion_bits h (rx_script s (rx_pos s))) = 0
      \<longleftrightarrow> rx_script s (rx_pos s) AND (RF24_MAX_RT h OR RF24_TX_DS h) = 0"
    by (simp add: push_bit_eq_mult bits)
  have blocking: "\<exists>k ret s'. k \<le> n \<and>
         NRF24L01_WaitForTxComplete_ex h mode s = Some (ret, s') \<and>
         (\<forall>i<k. rx_script s (rx_pos s + 2 * i) AND (RF24_MAX_RT h OR RF24_TX_DS h) = 0) \<and>
         g_ucStatus s' = rx_script s (rx_pos s + 2 * k) \<and>
         rx_pos s' = rx_pos s + 2 * (k + 1) \<and>
         ret = push_bit 4 (completion_bits h (g_ucStatus s')) \<and> ret \<noteq> 0"
    if mode: "mode \<noteq> 0"
      and set: "rx_script s (rx_pos s + 2 * n) AND (RF24_MAX_RT h OR RF24_TX_DS h) \<noteq> 0"
  proof -
    from set have "completion_bits h (rx_script s (rx_pos s + 2 * n)) \<noteq> 0"
      by (simp add: bits)
    from first_hit [of "\<lambda>k. completion_bits h (rx_script s (rx_pos s + 2 * k)) \<noteq> 0", OF this]
    obtain k where k: "k \<le> n" "completion_bits h (rx_script s (rx_pos s + 2 * k)) \<noteq> 0"
      "\<forall>i<k. completion_bits h (rx_script s (rx_pos s + 2 * i)) = 0"
      by auto
    from loop_finishes [OF k(3) k(2)] obtain s' where s':
      "NRF24L01_WaitForTxComplete_ex_loop h (snd (NRF24L01_GetStatus_ex h s)) = Some s'"
      "g_ucStatus s' = rx_script s (rx_pos s + 2 * k)"
      "rx_pos s' = rx_pos s + 2 * (k + 1)"
      by blast
    have "NRF24L01_WaitForTxComplete_ex h mode s
            = Some (push_bit 4 (completion_bits h (g_ucStatus s')), s')"
      using mode s'(1)
      by (simp add: NRF24L01_WaitForTxComplete_ex_def split_def completion_bits_def)
    moreover have "push_bit 4 (completion_bits h (g_ucStatus s')) \<noteq> 0"
      using k(2) s'(2) by (simp add: push_bit_eq_mult)
    ultimately show ?thesis
      using k(1) k(3) s'(2) s'(3) by (auto simp: bits)
  qed
  show ?thesis
    using nb zero blocking transactions_GetStatus_ex by blast
qed

text \<open>
  On the bench: without waiting, a status with neither bit and one with \<^verbatim>\<open>MAX_RT\<close>; waiting,
  a transport whose third status has \<^verbatim>\<open>TX_DS\<close> set.
\<close>

theorem wait_for_tx_complete_witness:
  "(1 :: u8) \<noteq> 0 \<and>
   rx_script (bench (scripted [0x0E, 0x00, 0x0E, 0x00, 0x2E]))
      (rx_pos (bench (scripted [0x0E, 0x00, 0x0E, 0x00, 0x2E])) + 2 * 2)
     AND (RF24_MAX_RT vendor_h OR RF24_TX_DS vendor_h) \<noteq> 0 \<and>
   map_option fst (NRF24L01_WaitForTxComplete_ex vendor_h 0 (bench (scripted []))) = Some 0 \<and>
   map_option fst (NRF24L01_WaitForTxComplete_ex vendor_h 0 (bench (scripted [0x1E]))) = Some 0x100 \<and>
   (\<exists>k ret s'. k \<le> 2 \<and>
      NRF24L01_WaitForTxComplete_ex vendor_h 1 (bench (scripted [0x0E, 0x00, 0x0E, 0x00, 0x2E]))
        = Some (ret, s') \<and>
      g_ucStatus s' = (scripted [0x0E, 0x00, 0x0E, 0x00, 0x2E]) (2 * k) \<and>
      rx_pos s' = 2 * (k + 1) \<and> ret \<noteq> 0) \<and>
   map_option fst (NRF24L01_WaitForTxComplete_ex vendor_h 1
      (bench (scripted [0x0E, 0x00, 0x0E, 0x00, 0x2E]))) = Some 0x200 \<and>
   map_option (rx_pos \<circ> snd) (NRF24L01_WaitForTxComplete_ex vendor_h 1
      (bench (scripted [0x0E, 0x00, 0x0E, 0x00, 0x2E]))) = Some 6"
proof -
  let ?f = "scripted [0x0E, 0x00, 0x0E, 0x00, 0x2E]"
  have hit: "rx_script (bench ?f) (rx_pos (bench ?f) + 2 * 2)
     AND (RF24_MAX_RT vendor_h OR RF24_TX_DS vendor_h) \<noteq> 0"
    by (simp add: bench_facts vendor_h_def scripted_def)
  have mode: "(1 :: u8) \<noteq> 0" by simp
  note w = wait_for_tx_complete [where h = vendor_h and mode = 1 and n = 2]
  have a: "map_option fst (NRF24L01_WaitForTxComplete_ex vendor_h 0 (bench (scripted []))) = Some 0"
    using w [of "bench (scripted [])"] by (simp add: bench_facts vendor_h_def scripted_def completion_bits_def)
  have b: "map_option fst (NRF24L01_WaitForTxComplete_ex vendor_h 0 (bench (scripted [0x1E]))) = Some 0x100"
    using w [of "bench (scripted [0x1E])"] by (simp add: bench_facts vendor_h_def scripted_def completion_bits_def)
  from w [of "bench ?f"] mode hit
  obtain k ret s' where r: "k \<le> 2"
      "NRF24L01_WaitForTxComplete_ex vendor_h 1 (bench ?f) = Some (ret, s')"
      "\<forall>i<k. rx_script (bench ?f) (rx_pos (bench ?f) + 2 * i)
          AND (RF24_MAX_RT vendor_h OR RF24_TX_DS vendor_h) = 0"
      "g_ucStatus s' = rx_script (bench ?f) (rx_pos (bench ?f) + 2 * k)"
      "rx_pos s' = rx_pos (bench ?f) + 2 * (k + 1)"
      "ret = push_bit 4 (completion_bits vendor_h (g_ucStatus s'))" "ret \<noteq> 0"
    by blast
  have "k = 2"
  proof (rule ccontr)
    assume "k \<noteq> 2"
    with r(1) have "k = 0 \<or> k = 1" by auto
    with r(4,6,7) show False
      by (auto simp: bench_facts vendor_h_def scripted_def completion_bits_def)
  qed
  with r show ?thesis
    using a b hit by (simp add: bench_facts vendor_h_def scripted_def completion_bits_def)
qed

section \<open>Commands and the failure paths\<close>

lemma SendCommand_arm_NULL_0:
  "malloc_ok s (Suc 0) \<Longrightarrow>
   trace (NRF24L01_SendCommand_arm c None 0 s) = trace s @
     [EvGPIOPinWrite (g_ulCSNBase s) (g_ulCSNPin s) 0x00, EvSendData [c],
      EvReceiveDataBlocking, EvGPIOPinWrite (g_ulCSNBase s) (g_ulCSNPin s) 0xFF] \<and>
   g_ucStatus (NRF24L01_SendCommand_arm c None 0 s) = rx_script s (rx_pos s)"
  by (simp add: NRF24L01_SendCommand_arm_def malloc_def env_defs Let_def)

lemma SendCommand_arm_payload:
  "malloc_ok s (Suc (length d)) \<Longrightarrow>
   trace (NRF24L01_SendCommand_arm c (Some d) (length d) s) = trace s @
     [EvGPIOPinWrite (g_ulCSNBase s) (g_ulCSNPin s) 0x00, EvSendData (c # d),
      EvReceiveDataBlocking, EvGPIOPinWrite (g_ulCSNBase s) (g_ulCSNPin s) 0xFF] \<and>
   g_ucStatus (NRF24L01_SendCommand_arm c (Some d) (length d) s) = rx_script s (rx_pos s)"
  by (simp add: NRF24L01_SendCommand_arm_def malloc_def env_defs Let_def
      fresh_block_filled del: upt_Suc)

lemma SendCommand_ex_payload:
  "malloc_ok s (Suc (length d)) \<Longrightarrow>
   trace (NRF24L01_SendCommand_ex c (Some d) (length d) s) = trace s @
     [EvGPIOPinWrite (g_ulCSNBase s) (g_ulCSNPin s) 0x00, EvSendData (c # d),
      EvGPIOPinWrite (g_ulCSNBase s) (g_ulCSNPin s) 0xFF]"
  by (simp add: NRF24L01_SendCommand_ex_def malloc_def env_defs Let_def
      fresh_block_filled del: upt_Suc)

lemma SendCommand_ex_keeps_status:
  "g_ucStatus (NRF24L01_SendCommand_ex c d n s) = g_ucStatus s \<and>
   rx_pos (NRF24L01_SendCommand_ex c d n s) = rx_pos s"
  by (simp add: NRF24L01_SendCommand_ex_def malloc_def env_defs Let_def)

lemma SendCommand_NULL_sends_junk:
  "malloc_ok s (Suc n) \<Longrightarrow>
   transactions s (NRF24L01_SendCommand_arm c None n s) = Some [c # map (heap_junk s) [1..<Suc n]] \<and>
   transactions s (NRF24L01_SendCommand_ex c None n s) = Some [c # map (heap_junk s) [1..<Suc n]]"
  by (simp add: NRF24L01_SendCommand_arm_def NRF24L01_SendCommand_ex_def malloc_def env_defs
      Let_def transactions_def upt_conv_Cons del: upt_Suc)

lemma status_is_first_byte_received:
  "g_ucStatus (NRF24L01_RegisterWrite_8_arm h r v s) = rx_script s (rx_pos s)"
  "g_ucStatus (NRF24L01_RegisterWrite_8_ex h r v s) = rx_script s (rx_pos s)"
  "malloc_ok s (Suc n) \<Longrightarrow>
     g_ucStatus (NRF24L01_RegisterWrite_Multi_arm h r (Some d) n s) = rx_script s (rx_pos s)"
  "malloc_ok s n \<Longrightarrow>
     g_ucStatus (NRF24L01_RegisterWrite_Multi_ex h r (Some d) n s) = rx_script s (rx_pos s)"
  "malloc_ok s (Suc n) \<Longrightarrow>
     g_ucStatus (NRF24L01_SendCommand_arm c p n s) = rx_script s (rx_pos s)"
  by (simp_all add: NRF24L01_RegisterWrite_8_arm_def NRF24L01_RegisterWrite_8_ex_def
      NRF24L01_RegisterWrite_Multi_arm_def NRF24L01_RegisterWrite_Multi_ex_def
      NRF24L01_SendCommand_arm_def malloc_def env_defs Let_def split_def)

section \<open>The stored status after a command (C3)\<close>

text \<open>
  C3 says that every operation that performs a transaction, the sending of a command
  included, stores the first byte received as the status. The register reads and writes
  of both variants do (\<open>status_is_first_byte_received\<close>, \<open>result_RegisterRead_8_arm\<close>,
  \<open>result_RegisterRead_8_ex\<close>), and so does the sending of a command in the variant \<open>arm\<close>.
  In the variant \<open>ex\<close> the sending of a command takes no byte from the transport and leaves
  the stored status as it was (\<open>SendCommand_ex_keeps_status\<close>), although its header comment
  says that it updates the status. On the bench, where the stored status is \<open>0x00\<close> and the
  chip answers \<open>0x0E\<close>: after \<^verbatim>\<open>NRF24L01_FlushTX\<close> of the variant \<open>ex\<close> the stored status is
  still \<open>0x00\<close>; after that of the variant \<open>arm\<close> it is \<open>0x0E\<close>.
\<close>

theorem flush_ex_leaves_status_stale:
  "transactions (bench (scripted [])) (NRF24L01_FlushTX_ex vendor_h (bench (scripted []))) = Some [[0xE1]] \<and>
   g_ucStatus (NRF24L01_FlushTX_ex vendor_h (bench (scripted []))) = 0x00 \<and>
   rx_pos (NRF24L01_FlushTX_ex vendor_h (bench (scripted []))) = 0 \<and>
   transactions (bench (scripted [])) (NRF24L01_FlushTX_arm vendor_h (bench (scripted []))) = Some [[0xE1]] \<and>
   g_ucStatus (NRF24L01_FlushTX_arm vendor_h (bench (scripted []))) = 0x0E"
  by (simp add: NRF24L01_FlushTX_ex_def NRF24L01_FlushTX_arm_def NRF24L01_SendCommand_ex_def
      NRF24L01_SendCommand_arm_def malloc_def env_defs Let_def transactions_def bench_def
      vendor_h_def scripted_def)

section \<open>Queueing a payload (C4)\<close>

lemma IsTxFifoFull_ex_result:
  "fst (NRF24L01_IsTxFifoFull_ex h s)
     = (if rx_script s (rx_pos s + 1) AND RF24_TX_FULL h \<noteq> 0 then 0 else 1)"
  "trace (snd (NRF24L01_IsTxFifoFull_ex h s))
     = trace (snd (NRF24L01_RegisterRead_8_ex h (RF24_FIFO_STATUS h) s))"
  "g_ulCSNBase (snd (NRF24L01_IsTxFifoFull_ex h s)) = g_ulCSNBase s"
  "g_ulCSNPin (snd (NRF24L01_IsTxFifoFull_ex h s)) = g_ulCSNPin s"
  "malloc_ok (snd (NRF24L01_IsTxFifoFull_ex h s)) = malloc_ok s"
  by (simp_all add: NRF24L01_IsTxFifoFull_ex_def split_def result_RegisterRead_8_ex
      uint_0_iff flip: uint_and)

lemma SetTxPayload_ex_inverted:
  "rx_script s (rx_pos s + 1) AND RF24_TX_FULL h = 0 \<Longrightarrow>
     fst (NRF24L01_SetTxPayload_ex h d n s) = - 1 \<and>
     transactions s (snd (NRF24L01_SetTxPayload_ex h d n s))
       = Some [[RF24_R_REGISTER h OR RF24_FIFO_STATUS h, RF24_NOP h]]"
  "rx_script s (rx_pos s + 1) AND RF24_TX_FULL h \<noteq> 0 \<Longrightarrow> malloc_ok s (Suc (length p)) \<Longrightarrow>
     fst (NRF24L01_SetTxPayload_ex h (Some p) (length p) s) = 0 \<and>
     transactions s (snd (NRF24L01_SetTxPayload_ex h (Some p) (length p) s))
       = Some [[RF24_R_REGISTER h OR RF24_FIFO_STATUS h, RF24_NOP h], RF24_W_TX_PAYLOAD h # p]"
proof -
  let ?s1 = "snd (NRF24L01_IsTxFifoFull_ex h s)"
  have t1: "trace ?s1 = trace s @
     [EvGPIOPinWrite (g_ulCSNBase s) (g_ulCSNPin s) 0x00,
      EvTransferByte (RF24_R_REGISTER h OR RF24_FIFO_STATUS h), EvTransferByte (RF24_NOP h),
      EvGPIOPinWrite (g_ulCSNBase s) (g_ulCSNPin s) 0xFF]"
    by (simp add: IsTxFifoFull_ex_result trace_RegisterRead_8_ex)
  show "rx_script s (rx_pos s + 1) AND RF24_TX_FULL h = 0 \<Longrightarrow>
     fst (NRF24L01_SetTxPayload_ex h d n s) = - 1 \<and>
     transactions s (snd (NRF24L01_SetTxPayload_ex h d n s))
       = Some [[RF24_R_REGISTER h OR RF24_FIFO_STATUS h, RF24_NOP h]]"
    by (simp add: NRF24L01_SetTxPayload_ex_def split_def IsTxFifoFull_ex_result(1)
        transactions_append [OF t1])
  assume full: "rx_script s (rx_pos s + 1) AND RF24_TX_FULL h \<noteq> 0"
    and ok: "malloc_ok s (Suc (length p))"
  have "trace (NRF24L01_SendCommand_ex (RF24_W_TX_PAYLOAD h) (Some p) (length p) ?s1) = trace s @
     [EvGPIOPinWrite (g_ulCSNBase s) (g_ulCSNPin s) 0x00,
      EvTransferByte (RF24_R_REGISTER h OR RF24_FIFO_STATUS h), EvTransferByte (RF24_NOP h),
      EvGPIOPinWrite (g_ulCSNBase s) (g_ulCSNPin s) 0xFF,
      EvGPIOPinWrite (g_ulCSNBase s) (g_ulCSNPin s) 0x00,
      EvSendData (RF24_W_TX_PAYLOAD h # p),
      EvGPIOPinWrite (g_ulCSNBase s) (g_ulCSNPin s) 0xFF]"
    using ok by (simp add: SendCommand_ex_payload IsTxFifoFull_ex_result(3-5) t1)
  from transactions_append [OF this] full
  show "fst (NRF24L01_SetTxPayload_ex h (Some p) (length p) s) = 0 \<and>
     transactions s (snd (NRF24L01_SetTxPayload_ex h (Some p) (length p) s))
       = Some [[RF24_R_REGISTER h OR RF24_FIFO_STATUS h, RF24_NOP h], RF24_W_TX_PAYLOAD h # p]"
    by (simp add: NRF24L01_SetTxPayload_ex_def split_def IsTxFifoFull_ex_result(1))
qed

text \<open>
  C4 says that \<^verbatim>\<open>NRF24L01_SetTxPayload\<close> of the variant \<open>ex\<close> returns -1 and sends nothing
  when the TX FIFO is full, and sends the payload and returns 0 otherwise. The code has
  the test the other way round (\<open>SetTxPayload_ex_inverted\<close>): \<^verbatim>\<open>NRF24L01_IsTxFifoFull\<close>
  returns 0 when the bit \<^verbatim>\<open>RF24_TX_FULL\<close> is set and 1 when it is clear, against its own
  header comment. On the bench: with FIFO_STATUS reading \<open>0x11\<close> (both FIFOs empty) or
  \<open>0x00\<close> (both FIFOs in use, neither full) the payload is refused with -1 and only the
  read of FIFO_STATUS takes place; with FIFO_STATUS reading \<open>0x21\<close> (TX FIFO full) the
  payload is sent and the result is 0.
\<close>

theorem tx_payload_refused_when_fifo_not_full:
  "fst (NRF24L01_SetTxPayload_ex vendor_h (Some [0x01, 0x02, 0x03]) 3
          (bench (scripted [0x0E, 0x11]))) = - 1 \<and>
   transactions (bench (scripted [0x0E, 0x11]))
     (snd (NRF24L01_SetTxPayload_ex vendor_h (Some [0x01, 0x02, 0x03]) 3
          (bench (scripted [0x0E, 0x11])))) = Some [[0x17, 0xFF]] \<and>
   fst (NRF24L01_SetTxPayload_ex vendor_h (Some [0x01, 0x02, 0x03]) 3
          (bench (scripted [0x0E, 0x00]))) = - 1 \<and>
   transactions (bench (scripted [0x0E, 0x00]))
     (snd (NRF24L01_SetTxPayload_ex vendor_h (Some [0x01, 0x02, 0x03]) 3
          (bench (scripted [0x0E, 0x00])))) = Some [[0x17, 0xFF]] \<and>
   fst (NRF24L01_SetTxPayload_ex vendor_h (Some [0x01, 0x02, 0x03]) 3
          (bench (scripted [0x0F, 0x21]))) = 0 \<and>
   transactions (bench (scripted [0x0F, 0x21]))
     (snd (NRF24L01_SetTxPayload_ex vendor_h (Some [0x01, 0x02, 0x03]) 3
          (bench (scripted [0x0F, 0x21]))))
       = Some [[0x17, 0xFF], [0xA0, 0x01, 0x02, 0x03]]"
proof -
  have len: "length [0x01, 0x02, 0x03 :: u8] = 3" by simp
  show ?thesis
    using SetTxPayload_ex_inverted(1) [of "bench (scripted [0x0E, 0x11])" vendor_h
            "Some [0x01, 0x02, 0x03]" 3]
          SetTxPayload_ex_inverted(1) [of "bench (scripted [0x0E, 0x00])" vendor_h
            "Some [0x01, 0x02, 0x03]" 3]
          SetTxPayload_ex_inverted(2) [of "bench (scripted [0x0F, 0x21])" vendor_h
            "[0x01, 0x02, 0x03]", unfolded len]
    by (simp add: bench_facts malloc_ok_bench vendor_h_def scripted_def)
qed

section \<open>A null payload with a nonzero length (C8)\<close>

text \<open>
  C8 says that the sending of a command and the write of a buffer are skipped, with
  nothing transferred, CSN untouched and the stored status unchanged, when the payload
  pointer is null and the length is not zero, or when the block for the frame is refused.
  That holds for a refused block (\<open>refused_block_skips\<close>) and for a null buffer in the write
  of a buffer (\<open>NULL_multi_write_skips\<close>). The sending of a command only leaves the copy
  out when the pointer is null: it still sends the command byte followed by \<open>uiLength\<close> bytes
  of the fresh block, which were never written (\<open>SendCommand_NULL_sends_junk\<close>). On the
  bench, where a fresh block holds \<open>0xEE\<close>: a null payload of length 2 puts \<open>A0 EE EE\<close> on
  the bus, and in the variant \<open>arm\<close> the stored status changes from \<open>0x00\<close> to \<open>0x0E\<close>.
\<close>

theorem send_command_null_payload_sends_heap_bytes:
  "transactions (bench (scripted []))
     (NRF24L01_SendCommand_arm 0xA0 None 2 (bench (scripted []))) = Some [[0xA0, 0xEE, 0xEE]] \<and>
   g_ucStatus (NRF24L01_SendCommand_arm 0xA0 None 2 (bench (scripted []))) = 0x0E \<and>
   transactions (bench (scripted []))
     (NRF24L01_SendCommand_ex 0xA0 None 2 (bench (scripted []))) = Some [[0xA0, 0xEE, 0xEE]]"
  using SendCommand_NULL_sends_junk [of "bench (scripted [])" 2 "0xA0"]
  by (simp add: malloc_ok_bench NRF24L01_SendCommand_arm_def malloc_def env_defs Let_def
      upt_conv_Cons bench_def scripted_def del: upt_Suc)

section \<open>The setters of RF_SETUP and RF_CH\<close>

lemma cut_or_shift: "(word_of_int (uint v OR push_bit k (uint a)) :: u8) = v OR push_bit k a"
  by (rule bit_word_eqI) (auto simp: bit_simps)

lemma after_RegisterWrite_8:
  "g_ulCSNBase (NRF24L01_RegisterWrite_8_arm h r v s) = g_ulCSNBase s"
  "g_ulCSNPin (NRF24L01_RegisterWrite_8_arm h r v s) = g_ulCSNPin s"
  "rx_script (NRF24L01_RegisterWrite_8_arm h r v s) = rx_script s"
  "rx_pos (NRF24L01_RegisterWrite_8_arm h r v s) = rx_pos s + 1"
  "g_ulCSNBase (NRF24L01_RegisterWrite_8_ex h r v s) = g_ulCSNBase s"
  "g_ulCSNPin (NRF24L01_RegisterWrite_8_ex h r v s) = g_ulCSNPin s"
  "rx_script (NRF24L01_RegisterWrite_8_ex h r v s) = rx_script s"
  "rx_pos (NRF24L01_RegisterWrite_8_ex h r v s) = rx_pos s + 2"
  by (simp_all add: NRF24L01_RegisterWrite_8_arm_def NRF24L01_RegisterWrite_8_ex_def env_defs
      Let_def split_def)

lemma trace_read_then_write_arm:
  "trace (NRF24L01_RegisterWrite_8_arm h r (f (fst (NRF24L01_RegisterRead_8_arm h r s)))
            (snd (NRF24L01_RegisterRead_8_arm h r s))) = trace s @
     [EvGPIOPinWrite (g_ulCSNBase s) (g_ulCSNPin s) 0x00,
      EvSendData [RF24_R_REGISTER h OR r], EvReceiveDataBlocking,
      EvSendData [RF24_NOP h], EvReceiveDataBlocking,
      EvGPIOPinWrite (g_ulCSNBase s) (g_ulCSNPin s) 0xFF,
      EvGPIOPinWrite (g_ulCSNBase s) (g_ulCSNPin s) 0x00,
      EvSendData [RF24_W_REGISTER h OR r, f (rx_script s (Suc (rx_pos s)))], EvReceiveDataBlocking,
      EvGPIOPinWrite (g_ulCSNBase s) (g_ulCSNPin s) 0xFF]"
  by (simp add: trace_RegisterWrite_8_arm trace_RegisterRead_8_arm result_RegisterRead_8_arm)

lemma trace_read_then_write_ex:
  "trace (NRF24L01_RegisterWrite_8_ex h r (f (fst (NRF24L01_RegisterRead_8_ex h r s)))
            (snd (NRF24L01_RegisterRead_8_ex h r s))) = trace s @
     [EvGPIOPinWrite (g_ulCSNBase s) (g_ulCSNPin s) 0x00,
      EvTransferByte (RF24_R_REGISTER h OR r), EvTransferByte (RF24_NOP h),
      EvGPIOPinWrite (g_ulCSNBase s) (g_ulCSNPin s) 0xFF,
      EvGPIOPinWrite (g_ulCSNBase s) (g_ulCSNPin s) 0x00,
      EvTransferByte (RF24_W_REGISTER h OR r), EvTransferByte (f (rx_script s (Suc (rx_pos s)))),
      EvGPIOPinWrite (g_ulCSNBase s) (g_ulCSNPin s) 0xFF]"
  by (simp add: trace_RegisterWrite_8_ex trace_RegisterRead_8_ex result_RegisterRead_8_ex)

lemma read_then_write:
  "transactions s (NRF24L01_RegisterWrite_8_arm h r (f (fst (NRF24L01_RegisterRead_8_arm h r s)))
            (snd (NRF24L01_RegisterRead_8_arm h r s)))
     = Some [[RF24_R_REGISTER h OR r, RF24_NOP h],
             [RF24_W_REGISTER h OR r, f (rx_script s (rx_pos s + 1))]]"
  "transactions s (NRF24L01_RegisterWrite_8_ex h r (f (fst (NRF24L01_RegisterRead_8_ex h r s)))
            (snd (NRF24L01_RegisterRead_8_ex h r s)))
     = Some [[RF24_R_REGISTER h OR r, RF24_NOP h],
             [RF24_W_REGISTER h OR r, f (rx_script s (rx_pos s + 1))]]"
  by (simp_all add: transactions_append [OF trace_read_then_write_arm]
      transactions_append [OF trace_read_then_write_ex])

lemma setter_as_read_then_write:
  "NRF24L01_SetAirDataRate_arm h a s =
     NRF24L01_RegisterWrite_8_arm h (RF24_RF_SETUP h)
       ((\<lambda>v. v OR push_bit 3 a) (fst (NRF24L01_RegisterRead_8_arm h (RF24_RF_SETUP h) s)))
       (snd (NRF24L01_RegisterRead_8_arm h (RF24_RF_SETUP h) s))"
  "NRF24L01_SetPAGain_arm h a s =
     NRF24L01_RegisterWrite_8_arm h (RF24_RF_SETUP h)
       ((\<lambda>v. v OR push_bit 1 a) (fst (NRF24L01_RegisterRead_8_arm h (RF24_RF_SETUP h) s)))
       (snd (NRF24L01_RegisterRead_8_arm h (RF24_RF_SETUP h) s))"
  "NRF24L01_SetLNAGain_arm h a s =
     NRF24L01_RegisterWrite_8_arm h (RF24_RF_SETUP h)
       ((\<lambda>v. v OR a) (fst (NRF24L01_RegisterRead_8_arm h (RF24_RF_SETUP h) s)))
       (snd (NRF24L01_RegisterRead_8_arm h (RF24_RF_SETUP h) s))"
  "NRF24L01_SetAirDataRate_ex h a s =
     NRF24L01_RegisterWrite_8_ex h (RF24_RF_SETUP h)
       ((\<lambda>v. v OR push_bit 3 (a - 1)) (fst (NRF24L01_RegisterRead_8_ex h (RF24_RF_SETUP h) s)))
       (snd (NRF24L01_RegisterRead_8_ex h (RF24_RF_SETUP h) s))"
  "NRF24L01_SetLNAGain_ex h a s =
     NRF24L01_RegisterWrite_8_ex h (RF24_RF_SETUP h)
       ((\<lambda>v. v OR a) (fst (NRF24L01_RegisterRead_8_ex h (RF24_RF_SETUP h) s)))
       (snd (NRF24L01_RegisterRead_8_ex h (RF24_RF_SETUP h) s))"
  unfolding NRF24L01_SetAirDataRate_arm_def NRF24L01_SetPAGain_arm_def
      NRF24L01_SetLNAGain_arm_def NRF24L01_SetAirDataRate_ex_def NRF24L01_SetLNAGain_ex_def
      split_def Let_def cut_or_shift
  by simp_all

text \<open>The bits that the example variant's SetPAGain ORs in.\<close>

lemma pa_bits_ex:
  "(word_of_int (uint v OR push_bit 1 (if g \<noteq> 0 \<and> (0x03 :: int) \<noteq> 0 then 1 else 0)) :: u8)
     = v OR (if g \<noteq> 0 then 0x02 else 0x00)"
  using cut_or_shift [of v 1 1] by simp

lemma SetPAGain_ex_as_read_then_write:
  "NRF24L01_SetPAGain_ex h g s =
     NRF24L01_RegisterWrite_8_ex h (RF24_RF_SETUP h)
       ((\<lambda>v. v OR (if 3 - c_div (- 1 * (if g < - 18 then - 18 else if g > 0 then 0 else g)) 6 \<noteq> 0
                    then 0x02 else 0x00))
          (fst (NRF24L01_RegisterRead_8_ex h (RF24_RF_SETUP h) s)))
       (snd (NRF24L01_RegisterRead_8_ex h (RF24_RF_SETUP h) s))"
  unfolding NRF24L01_SetPAGain_ex_def split_def Let_def pa_bits_ex by simp

lemma small_word:
  "a \<le> (1 :: u8) \<Longrightarrow> a = 0 \<or> a = 1"
  "a \<le> (3 :: u8) \<Longrightarrow> a = 0 \<or> a = 1 \<or> a = 2 \<or> a = 3"
proof -
  show "a \<le> (1 :: u8) \<Longrightarrow> a = 0 \<or> a = 1"
    by (auto simp: word_le_nat_alt word_unat_eq_iff)
  assume "a \<le> 3"
  then have "unat a \<le> 3" by (simp add: word_le_nat_alt)
  then have "unat a = 0 \<or> unat a = 1 \<or> unat a = 2 \<or> unat a = 3" by arith
  then show "a = 0 \<or> a = 1 \<or> a = 2 \<or> a = 3"
    by (auto simp: word_unat_eq_iff)
qed

lemma own_field_only:
  "a \<le> 1 \<Longrightarrow> (v OR push_bit 3 a) AND 0xF7 = v AND (0xF7 :: u8)"
  "a \<le> 1 \<Longrightarrow> (v OR a) AND 0xFE = v AND (0xFE :: u8)"
  "a \<le> 3 \<Longrightarrow> (v OR push_bit 1 a) AND 0xF9 = v AND (0xF9 :: u8)"
  "(v OR (if b then 0x02 else 0x00)) AND 0xF9 = v AND (0xF9 :: u8)"
  using small_word(1) [of a] small_word(2) [of a]
  by (auto simp: bit.conj_disj_distrib2)

text \<open>
  What the variant \<open>ex\<close> writes for the four gains of its header comment, the register
  reading \<open>0x01\<close>: the two gain bits (mask \<open>0x06\<close>) should come out as 11, 10, 01 and 00;
  with \<^verbatim>\<open>&&\<close> in place of \<^verbatim>\<open>&\<close> they come out as 01, 01, 01 and 00.
\<close>

lemma SetPAGain_ex_levels:
  "transactions (bench (scripted [0x0E, 0x01]))
     (NRF24L01_SetPAGain_ex vendor_h 0 (bench (scripted [0x0E, 0x01])))
     = Some [[0x06, 0xFF], [0x26, 0x03]]"
  "transactions (bench (scripted [0x0E, 0x01]))
     (NRF24L01_SetPAGain_ex vendor_h (- 6) (bench (scripted [0x0E, 0x01])))
     = Some [[0x06, 0xFF], [0x26, 0x03]]"
  "transactions (bench (scripted [0x0E, 0x01]))
     (NRF24L01_SetPAGain_ex vendor_h (- 12) (bench (scripted [0x0E, 0x01])))
     = Some [[0x06, 0xFF], [0x26, 0x03]]"
  "transactions (bench (scripted [0x0E, 0x01]))
     (NRF24L01_SetPAGain_ex vendor_h (- 18) (bench (scripted [0x0E, 0x01])))
     = Some [[0x06, 0xFF], [0x26, 0x01]]"
  unfolding SetPAGain_ex_as_read_then_write
  by (simp_all add: read_then_write [where f = "\<lambda>v. v OR 0x02"] read_then_write [where f = "\<lambda>v. v"]
      c_div_def bench_facts vendor_h_def scripted_def)

section \<open>The setters as read-modify-write (C9)\<close>

text \<open>
  C9, as it stands, says that each of \<^verbatim>\<open>SetAirDataRate\<close>, \<^verbatim>\<open>SetRFChannel\<close>, \<^verbatim>\<open>SetPAGain\<close> and
  \<^verbatim>\<open>SetLNAGain\<close> reads a register, alters only its own bit or field and writes the result
  back. On the bench that fails twice. \<^verbatim>\<open>NRF24L01_SetRFChannel\<close> reads nothing: its only
  transaction is the write, and it writes the channel \<open>0xCC\<close> with all its 8 bits. And
  \<^verbatim>\<open>NRF24L01_SetLNAGain\<close> with the argument \<open>0x80\<close>, the register reading \<open>0x0F\<close>, writes \<open>0x8F\<close>:
  bit 7 is altered, which is not the LNA bit.
\<close>

theorem setters_counterexample:
  "transactions (bench (scripted [])) (NRF24L01_SetRFChannel_arm vendor_h 0xCC (bench (scripted [])))
     = Some [[0x25, 0xCC]] \<and>
   transactions (bench (scripted [])) (NRF24L01_SetRFChannel_ex vendor_h 0xCC (bench (scripted [])))
     = Some [[0x25, 0xCC]] \<and>
   transactions (bench (scripted [0x0E, 0x0F]))
     (NRF24L01_SetLNAGain_arm vendor_h 0x80 (bench (scripted [0x0E, 0x0F])))
     = Some [[0x06, 0xFF], [0x26, 0x8F]] \<and>
   transactions (bench (scripted [0x0E, 0x0F]))
     (NRF24L01_SetLNAGain_ex vendor_h 0x80 (bench (scripted [0x0E, 0x0F])))
     = Some [[0x06, 0xFF], [0x26, 0x8F]]"
  by (simp add: NRF24L01_SetRFChannel_arm_def NRF24L01_SetRFChannel_ex_def
      transactions_append [OF trace_RegisterWrite_8_arm]
      transactions_append [OF trace_RegisterWrite_8_ex]
      setter_as_read_then_write read_then_write [where f = "\<lambda>v. v OR 0x80"]
      bench_facts vendor_h_def scripted_def)

text \<open>
  C9, amended. \<^verbatim>\<open>NRF24L01_SetRFChannel\<close> performs one transaction, the write of its argument
  as it is to RF_CH, and reads nothing. \<^verbatim>\<open>NRF24L01_SetAirDataRate\<close>, \<^verbatim>\<open>NRF24L01_SetLNAGain\<close>
  and \<^verbatim>\<open>NRF24L01_SetPAGain\<close> perform two transactions, a read of RF_SETUP and a write of
  RF_SETUP. The value written is the value read with bits OR-ed in: the argument
  shifted left by 3 for the data rate (the argument less one in the variant \<open>ex\<close>), the
  argument for the LNA gain, the argument shifted left by 1 for the PA gain of the variant
  \<open>arm\<close>. No argument is checked, so the value written differs from the value read in the
  operation's own bit or field alone only for an argument in range: a data rate of 0 or
  1 (1 or 2 in the variant \<open>ex\<close>) for bit 3, an LNA gain of 0 or 1 for bit 0, a PA gain of 0
  to 3 for bits 1 and 2. The PA gain of the variant \<open>ex\<close> is first clamped to the range from
  -18 to 0, and the value it writes differs from the value read in bits 1 and 2 alone.
\<close>

theorem setters_shape:
  "transactions s (NRF24L01_SetRFChannel_arm h c s) = Some [[RF24_W_REGISTER h OR RF24_RF_CH h, c]] \<and>
   transactions s (NRF24L01_SetRFChannel_ex h c s) = Some [[RF24_W_REGISTER h OR RF24_RF_CH h, c]] \<and>
   transactions s (NRF24L01_SetAirDataRate_arm h a s)
     = Some [[RF24_R_REGISTER h OR RF24_RF_SETUP h, RF24_NOP h],
             [RF24_W_REGISTER h OR RF24_RF_SETUP h, rx_script s (rx_pos s + 1) OR push_bit 3 a]] \<and>
   (a \<le> 1 \<longrightarrow> (rx_script s (rx_pos s + 1) OR push_bit 3 a) AND 0xF7
                = rx_script s (rx_pos s + 1) AND 0xF7) \<and>
   transactions s (NRF24L01_SetAirDataRate_ex h a s)
     = Some [[RF24_R_REGISTER h OR RF24_RF_SETUP h, RF24_NOP h],
             [RF24_W_REGISTER h OR RF24_RF_SETUP h,
              rx_script s (rx_pos s + 1) OR push_bit 3 (a - 1)]] \<and>
   (a = 1 \<or> a = 2 \<longrightarrow> (rx_script s (rx_pos s + 1) OR push_bit 3 (a - 1)) AND 0xF7
                = rx_script s (rx_pos s + 1) AND 0xF7) \<and>
   transactions s (NRF24L01_SetLNAGain_arm h a s)
     = Some [[RF24_R_REGISTER h OR RF24_RF_SETUP h, RF24_NOP h],
             [RF24_W_REGISTER h OR RF24_RF_SETUP h, rx_script s (rx_pos s + 1) OR a]] \<and>
   transactions s (NRF24L01_SetLNAGain_ex h a s)
     = Some [[RF24_R_REGISTER h OR RF24_RF_SETUP h, RF24_NOP h],
             [RF24_W_REGISTER h OR RF24_RF_SETUP h, rx_script s (rx_pos s + 1) OR a]] \<and>
   (a \<le> 1 \<longrightarrow> (rx_script s (rx_pos s + 1) OR a) AND 0xFE
                = rx_script s (rx_pos s + 1) AND 0xFE) \<and>
   transactions s (NRF24L01_SetPAGain_arm h a s)
     = Some [[RF24_R_REGISTER h OR RF24_RF_SETUP h, RF24_NOP h],
             [RF24_W_REGISTER h OR RF24_RF_SETUP h, rx_script s (rx_pos s + 1) OR push_bit 1 a]] \<and>
   (a \<le> 3 \<longrightarrow> (rx_script s (rx_pos s + 1) OR push_bit 1 a) AND 0xF9
                = rx_script s (rx_pos s + 1) AND 0xF9) \<and>
   (\<exists>w. transactions s (NRF24L01_SetPAGain_ex h g s)
           = Some [[RF24_R_REGISTER h OR RF24_RF_SETUP h, RF24_NOP h],
                   [RF24_W_REGISTER h OR RF24_RF_SETUP h, w]] \<and>
        w AND 0xF9 = rx_script s (rx_pos s + 1) AND 0xF9) \<and>
   NRF24L01_SetPAGain_ex h g s = NRF24L01_SetPAGain_ex h (max (- 18) (min 0 g)) s"
proof -
  let ?v = "rx_script s (rx_pos s + 1)"
  let ?rd = "[RF24_R_REGISTER h OR RF24_RF_SETUP h, RF24_NOP h]"
  have ch: "transactions s (NRF24L01_SetRFChannel_arm h c s)
              = Some [[RF24_W_REGISTER h OR RF24_RF_CH h, c]]"
    "transactions s (NRF24L01_SetRFChannel_ex h c s)
              = Some [[RF24_W_REGISTER h OR RF24_RF_CH h, c]]"
    by (simp_all add: NRF24L01_SetRFChannel_arm_def NRF24L01_SetRFChannel_ex_def
        transactions_append [OF trace_RegisterWrite_8_arm]
        transactions_append [OF trace_RegisterWrite_8_ex])
  have dr: "transactions s (NRF24L01_SetAirDataRate_arm h a s)
     = Some [?rd, [RF24_W_REGISTER h OR RF24_RF_SETUP h, ?v OR push_bit 3 a]]"
    unfolding setter_as_read_then_write by (rule read_then_write)
  have dr_ex: "transactions s (NRF24L01_SetAirDataRate_ex h a s)
     = Some [?rd, [RF24_W_REGISTER h OR RF24_RF_SETUP h, ?v OR push_bit 3 (a - 1)]]"
    unfolding setter_as_read_then_write by (rule read_then_write)
  have lna: "transactions s (NRF24L01_SetLNAGain_arm h a s)
     = Some [?rd, [RF24_W_REGISTER h OR RF24_RF_SETUP h, ?v OR a]]"
    unfolding setter_as_read_then_write by (rule read_then_write)
  have lna_ex: "transactions s (NRF24L01_SetLNAGain_ex h a s)
     = Some [?rd, [RF24_W_REGISTER h OR RF24_RF_SETUP h, ?v OR a]]"
    unfolding setter_as_read_then_write by (rule read_then_write)
  have pa: "transactions s (NRF24L01_SetPAGain_arm h a s)
     = Some [?rd, [RF24_W_REGISTER h OR RF24_RF_SETUP h, ?v OR push_bit 1 a]]"
    unfolding setter_as_read_then_write by (rule read_then_write)
  have "\<exists>b. transactions s (NRF24L01_SetPAGain_ex h g s)
     = Some [?rd, [RF24_W_REGISTER h OR RF24_RF_SETUP h, ?v OR (if b then 0x02 else 0x00)]]"
    unfolding SetPAGain_ex_as_read_then_write by (rule exI, rule read_then_write)
  with own_field_only(4) have pa_ex: "\<exists>w. transactions s (NRF24L01_SetPAGain_ex h g s)
           = Some [?rd, [RF24_W_REGISTER h OR RF24_RF_SETUP h, w]] \<and> w AND 0xF9 = ?v AND 0xF9"
    by blast
  have clamp: "NRF24L01_SetPAGain_ex h g s = NRF24L01_SetPAGain_ex h (max (- 18) (min 0 g)) s"
    by (simp add: NRF24L01_SetPAGain_ex_def max_def min_def)
  have f1: "a \<le> 1 \<longrightarrow> (?v OR push_bit 3 a) AND 0xF7 = ?v AND 0xF7"
    using own_field_only(1) by blast
  have f2: "a = 1 \<or> a = 2 \<longrightarrow> (?v OR push_bit 3 (a - 1)) AND 0xF7 = ?v AND 0xF7"
    using own_field_only(1) [of "a - 1" ?v] by auto
  have f3: "a \<le> 1 \<longrightarrow> (?v OR a) AND 0xFE = ?v AND 0xFE"
    using own_field_only(2) by blast
  have f4: "a \<le> 3 \<longrightarrow> (?v OR push_bit 1 a) AND 0xF9 = ?v AND 0xF9"
    using own_field_only(3) by blast
  from ch dr f1 dr_ex f2 lna lna_ex f3 pa f4 pa_ex clamp show ?thesis
    by (intro conjI) assumption+
qed

text \<open>
  On the bench: data rate 1 (2 in the variant \<open>ex\<close>) and PA gain 2 with the register
  reading \<open>0x01\<close>, LNA gain 1 with the register reading \<open>0x08\<close>, and a gain of -40 clamped to -18.
\<close>

theorem setters_shape_witness:
  "(1 :: u8) \<le> 1 \<and> (2 :: u8) \<le> 3 \<and> ((2 :: u8) = 1 \<or> (2 :: u8) = 2) \<and>
   transactions (bench (scripted [0x0E, 0x01]))
     (NRF24L01_SetAirDataRate_arm vendor_h 1 (bench (scripted [0x0E, 0x01])))
     = Some [[0x06, 0xFF], [0x26, 0x09]] \<and>
   transactions (bench (scripted [0x0E, 0x01]))
     (NRF24L01_SetAirDataRate_ex vendor_h 2 (bench (scripted [0x0E, 0x01])))
     = Some [[0x06, 0xFF], [0x26, 0x09]] \<and>
   transactions (bench (scripted [0x0E, 0x08]))
     (NRF24L01_SetLNAGain_arm vendor_h 1 (bench (scripted [0x0E, 0x08])))
     = Some [[0x06, 0xFF], [0x26, 0x09]] \<and>
   transactions (bench (scripted [0x0E, 0x01]))
     (NRF24L01_SetPAGain_arm vendor_h 2 (bench (scripted [0x0E, 0x01])))
     = Some [[0x06, 0xFF], [0x26, 0x05]] \<and>
   ((0x01 :: u8) OR push_bit 3 1) AND 0xF7 = 0x01 AND 0xF7 \<and>
   ((0x08 :: u8) OR 1) AND 0xFE = 0x08 AND 0xFE \<and>
   ((0x01 :: u8) OR push_bit 1 2) AND 0xF9 = 0x01 AND 0xF9 \<and>
   NRF24L01_SetPAGain_ex vendor_h (- 40) (bench (scripted [0x0E, 0x01]))
     = NRF24L01_SetPAGain_ex vendor_h (- 18) (bench (scripted [0x0E, 0x01]))"
  using setters_shape [of "bench (scripted [0x0E, 0x01])" vendor_h "0x4C" 1 "- 40"]
        setters_shape [of "bench (scripted [0x0E, 0x01])" vendor_h "0x4C" 2 "- 40"]
        setters_shape [of "bench (scripted [0x0E, 0x08])" vendor_h "0x4C" 1 "- 40"]
  by (simp add: bench_facts vendor_h_def scripted_def)

section \<open>The setters of RF_SETUP never clear a bit (C10)\<close>

lemma after_SetAirDataRate_arm:
  "g_ulCSNBase (NRF24L01_SetAirDataRate_arm h a s) = g_ulCSNBase s"
  "g_ulCSNPin (NRF24L01_SetAirDataRate_arm h a s) = g_ulCSNPin s"
  "rx_script (NRF24L01_SetAirDataRate_arm h a s) = rx_script s"
  "rx_pos (NRF24L01_SetAirDataRate_arm h a s) = rx_pos s + 3"
  by (simp_all add: setter_as_read_then_write after_RegisterWrite_8 result_RegisterRead_8_arm)

lemma trace_SetAirDataRate_arm:
  "trace (NRF24L01_SetAirDataRate_arm h a s) = trace s @
     [EvGPIOPinWrite (g_ulCSNBase s) (g_ulCSNPin s) 0x00,
      EvSendData [RF24_R_REGISTER h OR RF24_RF_SETUP h], EvReceiveDataBlocking,
      EvSendData [RF24_NOP h], EvReceiveDataBlocking,
      EvGPIOPinWrite (g_ulCSNBase s) (g_ulCSNPin s) 0xFF,
      EvGPIOPinWrite (g_ulCSNBase s) (g_ulCSNPin s) 0x00,
      EvSendData [RF24_W_REGISTER h OR RF24_RF_SETUP h,
                  rx_script s (Suc (rx_pos s)) OR push_bit 3 a], EvReceiveDataBlocking,
      EvGPIOPinWrite (g_ulCSNBase s) (g_ulCSNPin s) 0xFF]"
  unfolding setter_as_read_then_write(1) by (rule trace_read_then_write_arm)

lemma SetAirDataRate_arm_twice:
  "transactions s (NRF24L01_SetAirDataRate_arm h b (NRF24L01_SetAirDataRate_arm h a s))
     = Some [[RF24_R_REGISTER h OR RF24_RF_SETUP h, RF24_NOP h],
             [RF24_W_REGISTER h OR RF24_RF_SETUP h, rx_script s (rx_pos s + 1) OR push_bit 3 a],
             [RF24_R_REGISTER h OR RF24_RF_SETUP h, RF24_NOP h],
             [RF24_W_REGISTER h OR RF24_RF_SETUP h, rx_script s (rx_pos s + 4) OR push_bit 3 b]]"
proof -
  have "trace (NRF24L01_SetAirDataRate_arm h b (NRF24L01_SetAirDataRate_arm h a s)) = trace s @
     [EvGPIOPinWrite (g_ulCSNBase s) (g_ulCSNPin s) 0x00,
      EvSendData [RF24_R_REGISTER h OR RF24_RF_SETUP h], EvReceiveDataBlocking,
      EvSendData [RF24_NOP h], EvReceiveDataBlocking,
      EvGPIOPinWrite (g_ulCSNBase s) (g_ulCSNPin s) 0xFF,
      EvGPIOPinWrite (g_ulCSNBase s) (g_ulCSNPin s) 0x00,
      EvSendData [RF24_W_REGISTER h OR RF24_RF_SETUP h,
                  rx_script s (Suc (rx_pos s)) OR push_bit 3 a], EvReceiveDataBlocking,
      EvGPIOPinWrite (g_ulCSNBase s) (g_ulCSNPin s) 0xFF,
      EvGPIOPinWrite (g_ulCSNBase s) (g_ulCSNPin s) 0x00,
      EvSendData [RF24_R_REGISTER h OR RF24_RF_SETUP h], EvReceiveDataBlocking,
      EvSendData [RF24_NOP h], EvReceiveDataBlocking,
      EvGPIOPinWrite (g_ulCSNBase s) (g_ulCSNPin s) 0xFF,
      EvGPIOPinWrite (g_ulCSNBase s) (g_ulCSNPin s) 0x00,
      EvSendData [RF24_W_REGISTER h OR RF24_RF_SETUP h,
                  rx_script s (rx_pos s + 4) OR push_bit 3 b], EvReceiveDataBlocking,
      EvGPIOPinWrite (g_ulCSNBase s) (g_ulCSNPin s) 0xFF]"
    by (simp add: trace_SetAirDataRate_arm after_SetAirDataRate_arm add.commute)
  from transactions_append [OF this] show ?thesis by simp
qed

text \<open>
  C10. With \<open>v\<close> the value read from RF_SETUP and \<open>a\<close> the argument, the variant \<open>arm\<close>
  writes \<open>v OR (a << 3)\<close> in \<^verbatim>\<open>NRF24L01_SetAirDataRate\<close>, \<open>v OR a\<close> in \<^verbatim>\<open>NRF24L01_SetLNAGain\<close>
  and \<open>v OR (a << 1)\<close> in \<^verbatim>\<open>NRF24L01_SetPAGain\<close>. Every bit set in \<open>v\<close> is set in the value
  written, in the three setters of either variant. So when the chip returns at the second
  read what the first call wrote, \<^verbatim>\<open>NRF24L01_SetAirDataRate (1)\<close> followed by
  \<^verbatim>\<open>NRF24L01_SetAirDataRate (0)\<close> writes the same value twice, with bit 3 set.
\<close>

theorem rf_setup_setters_only_or:
  "transactions s (NRF24L01_SetAirDataRate_arm h a s)
     = Some [[RF24_R_REGISTER h OR RF24_RF_SETUP h, RF24_NOP h],
             [RF24_W_REGISTER h OR RF24_RF_SETUP h, rx_script s (rx_pos s + 1) OR push_bit 3 a]] \<and>
   transactions s (NRF24L01_SetLNAGain_arm h a s)
     = Some [[RF24_R_REGISTER h OR RF24_RF_SETUP h, RF24_NOP h],
             [RF24_W_REGISTER h OR RF24_RF_SETUP h, rx_script s (rx_pos s + 1) OR a]] \<and>
   transactions s (NRF24L01_SetPAGain_arm h a s)
     = Some [[RF24_R_REGISTER h OR RF24_RF_SETUP h, RF24_NOP h],
             [RF24_W_REGISTER h OR RF24_RF_SETUP h, rx_script s (rx_pos s + 1) OR push_bit 1 a]] \<and>
   (rx_script s (rx_pos s + 1) OR push_bit 3 a) AND rx_script s (rx_pos s + 1)
     = rx_script s (rx_pos s + 1) \<and>
   (rx_script s (rx_pos s + 1) OR a) AND rx_script s (rx_pos s + 1)
     = rx_script s (rx_pos s + 1) \<and>
   (rx_script s (rx_pos s + 1) OR push_bit 1 a) AND rx_script s (rx_pos s + 1)
     = rx_script s (rx_pos s + 1) \<and>
   (\<exists>w. transactions s (NRF24L01_SetAirDataRate_ex h a s)
           = Some [[RF24_R_REGISTER h OR RF24_RF_SETUP h, RF24_NOP h],
                   [RF24_W_REGISTER h OR RF24_RF_SETUP h, w]] \<and>
        w AND rx_script s (rx_pos s + 1) = rx_script s (rx_pos s + 1)) \<and>
   (\<exists>w. transactions s (NRF24L01_SetLNAGain_ex h a s)
           = Some [[RF24_R_REGISTER h OR RF24_RF_SETUP h, RF24_NOP h],
                   [RF24_W_REGISTER h OR RF24_RF_SETUP h, w]] \<and>
        w AND rx_script s (rx_pos s + 1) = rx_script s (rx_pos s + 1)) \<and>
   (\<exists>w. transactions s (NRF24L01_SetPAGain_ex h g s)
           = Some [[RF24_R_REGISTER h OR RF24_RF_SETUP h, RF24_NOP h],
                   [RF24_W_REGISTER h OR RF24_RF_SETUP h, w]] \<and>
        w AND rx_script s (rx_pos s + 1) = rx_script s (rx_pos s + 1)) \<and>
   (rx_script s (rx_pos s + 4) = rx_script s (rx_pos s + 1) OR push_bit 3 1 \<longrightarrow>
      transactions s (NRF24L01_SetAirDataRate_arm h 0 (NRF24L01_SetAirDataRate_arm h 1 s))
        = Some [[RF24_R_REGISTER h OR RF24_RF_SETUP h, RF24_NOP h],
                [RF24_W_REGISTER h OR RF24_RF_SETUP h, rx_script s (rx_pos s + 1) OR push_bit 3 1],
                [RF24_R_REGISTER h OR RF24_RF_SETUP h, RF24_NOP h],
                [RF24_W_REGISTER h OR RF24_RF_SETUP h, rx_script s (rx_pos s + 1) OR push_bit 3 1]] \<and>
      bit (rx_script s (rx_pos s + 1) OR push_bit 3 1) 3)"
proof -
  let ?v = "rx_script s (rx_pos s + 1)"
  let ?rd = "[RF24_R_REGISTER h OR RF24_RF_SETUP h, RF24_NOP h]"
  have absorb: "(v OR x) AND v = v" for v x :: u8
    by (rule bit_word_eqI) (auto simp: bit_simps)
  have dr: "transactions s (NRF24L01_SetAirDataRate_arm h a s)
     = Some [?rd, [RF24_W_REGISTER h OR RF24_RF_SETUP h, ?v OR push_bit 3 a]]"
    unfolding setter_as_read_then_write by (rule read_then_write)
  have lna: "transactions s (NRF24L01_SetLNAGain_arm h a s)
     = Some [?rd, [RF24_W_REGISTER h OR RF24_RF_SETUP h, ?v OR a]]"
    unfolding setter_as_read_then_write by (rule read_then_write)
  have pa: "transactions s (NRF24L01_SetPAGain_arm h a s)
     = Some [?rd, [RF24_W_REGISTER h OR RF24_RF_SETUP h, ?v OR push_bit 1 a]]"
    unfolding setter_as_read_then_write by (rule read_then_write)
  have "transactions s (NRF24L01_SetAirDataRate_ex h a s)
     = Some [?rd, [RF24_W_REGISTER h OR RF24_RF_SETUP h, ?v OR push_bit 3 (a - 1)]]"
    unfolding setter_as_read_then_write by (rule read_then_write)
  with absorb have dr_ex: "\<exists>w. transactions s (NRF24L01_SetAirDataRate_ex h a s)
           = Some [?rd, [RF24_W_REGISTER h OR RF24_RF_SETUP h, w]] \<and> w AND ?v = ?v"
    by blast
  have "transactions s (NRF24L01_SetLNAGain_ex h a s)
     = Some [?rd, [RF24_W_REGISTER h OR RF24_RF_SETUP h, ?v OR a]]"
    unfolding setter_as_read_then_write by (rule read_then_write)
  with absorb have lna_ex: "\<exists>w. transactions s (NRF24L01_SetLNAGain_ex h a s)
           = Some [?rd, [RF24_W_REGISTER h OR RF24_RF_SETUP h, w]] \<and> w AND ?v = ?v"
    by blast
  have "\<exists>x. transactions s (NRF24L01_SetPAGain_ex h g s)
     = Some [?rd, [RF24_W_REGISTER h OR RF24_RF_SETUP h, ?v OR x]]"
    unfolding SetPAGain_ex_as_read_then_write by (rule exI, rule read_then_write)
  with absorb have pa_ex: "\<exists>w. transactions s (NRF24L01_SetPAGain_ex h g s)
           = Some [?rd, [RF24_W_REGISTER h OR RF24_RF_SETUP h, w]] \<and> w AND ?v = ?v"
    by blast
  have twice: "rx_script s (rx_pos s + 4) = ?v OR push_bit 3 1 \<longrightarrow>
      transactions s (NRF24L01_SetAirDataRate_arm h 0 (NRF24L01_SetAirDataRate_arm h 1 s))
        = Some [?rd, [RF24_W_REGISTER h OR RF24_RF_SETUP h, ?v OR push_bit 3 1],
                ?rd, [RF24_W_REGISTER h OR RF24_RF_SETUP h, ?v OR push_bit 3 1]] \<and>
      bit (?v OR push_bit 3 1) 3"
    by (simp add: SetAirDataRate_arm_twice bit_simps)
  from dr lna pa absorb dr_ex lna_ex pa_ex twice show ?thesis
    by (intro conjI) assumption+
qed

text \<open>
  On the bench: RF_SETUP reads \<open>0x07\<close> in the first call, which writes \<open>0x0F\<close>, and \<open>0x0F\<close> in
  the second.
\<close>

theorem rf_setup_setters_only_or_witness:
  "rx_script (bench (scripted [0x0E, 0x07, 0x0E, 0x0E, 0x0F]))
      (rx_pos (bench (scripted [0x0E, 0x07, 0x0E, 0x0E, 0x0F])) + 4)
     = rx_script (bench (scripted [0x0E, 0x07, 0x0E, 0x0E, 0x0F]))
         (rx_pos (bench (scripted [0x0E, 0x07, 0x0E, 0x0E, 0x0F])) + 1)
       OR push_bit 3 1 \<and>
   transactions (bench (scripted [0x0E, 0x07, 0x0E, 0x0E, 0x0F]))
     (NRF24L01_SetAirDataRate_arm vendor_h 0 (NRF24L01_SetAirDataRate_arm vendor_h 1
        (bench (scripted [0x0E, 0x07, 0x0E, 0x0E, 0x0F]))))
     = Some [[0x06, 0xFF], [0x26, 0x0F], [0x06, 0xFF], [0x26, 0x0F]] \<and>
   bit (0x0F :: u8) 3"
  using rf_setup_setters_only_or
    [of "bench (scripted [0x0E, 0x07, 0x0E, 0x0E, 0x0F])" vendor_h 1 0]
  by (simp add: bench_facts vendor_h_def scripted_def)

end
